theory Spec2Isabelle
  imports Complex_Main "HOL-Library.List_Lexorder" "HOL-Library.Char_ord"
    "HOL-Library.Product_Lexorder"
begin

section \<open>Numbers\<close>

text \<open>
  The numeric columns of the trade table and the edge attributes of the graphs are
  double-precision floats (pandas \<^verbatim>\<open>float64\<close>, Python \<^verbatim>\<open>float\<close>).
  They are modelled as exact reals extended with the three special values that the
  source can produce without raising: \<^verbatim>\<open>inf\<close>, \<^verbatim>\<open>-inf\<close> and
  \<^verbatim>\<open>nan\<close>. Rounding, the sign of zero and the overflow of a finite result are
  not modelled; division by zero, \<open>0 * inf\<close>, \<open>inf - inf\<close> and the skipping of
  \<^verbatim>\<open>nan\<close> by the pandas reductions are.
\<close>

datatype pyfloat = Fin real | PInf | NInf | NaN

fun pneg :: "pyfloat \<Rightarrow> pyfloat" where
  "pneg (Fin a) = Fin (- a)"
| "pneg PInf = NInf"
| "pneg NInf = PInf"
| "pneg NaN = NaN"

fun padd :: "pyfloat \<Rightarrow> pyfloat \<Rightarrow> pyfloat" where
  "padd (Fin a) (Fin b) = Fin (a + b)"
| "padd NaN y = NaN"
| "padd x NaN = NaN"
| "padd PInf NInf = NaN"
| "padd NInf PInf = NaN"
| "padd PInf y = PInf"
| "padd x PInf = PInf"
| "padd NInf y = NInf"
| "padd x NInf = NInf"

definition psub :: "pyfloat \<Rightarrow> pyfloat \<Rightarrow> pyfloat" where
  "psub x y = padd x (pneg y)"

fun pmul :: "pyfloat \<Rightarrow> pyfloat \<Rightarrow> pyfloat" where
  "pmul (Fin a) (Fin b) = Fin (a * b)"
| "pmul NaN y = NaN"
| "pmul x NaN = NaN"
| "pmul (Fin a) PInf = (if 0 < a then PInf else if a < 0 then NInf else NaN)"
| "pmul (Fin a) NInf = (if 0 < a then NInf else if a < 0 then PInf else NaN)"
| "pmul PInf (Fin b) = (if 0 < b then PInf else if b < 0 then NInf else NaN)"
| "pmul NInf (Fin b) = (if 0 < b then NInf else if b < 0 then PInf else NaN)"
| "pmul PInf PInf = PInf"
| "pmul PInf NInf = NInf"
| "pmul NInf PInf = NInf"
| "pmul NInf NInf = PInf"

text \<open>
  Division as numpy does it: a finite number divided by zero is an infinity (or
  \<^verbatim>\<open>nan\<close> for \<open>0 / 0\<close>), and nothing is raised.
\<close>

fun pdiv :: "pyfloat \<Rightarrow> pyfloat \<Rightarrow> pyfloat" where
  "pdiv (Fin a) (Fin b) =
     (if b \<noteq> 0 then Fin (a / b) else if 0 < a then PInf else if a < 0 then NInf else NaN)"
| "pdiv NaN y = NaN"
| "pdiv x NaN = NaN"
| "pdiv (Fin a) PInf = Fin 0"
| "pdiv (Fin a) NInf = Fin 0"
| "pdiv PInf (Fin b) = (if 0 \<le> b then PInf else NInf)"
| "pdiv NInf (Fin b) = (if 0 \<le> b then NInf else PInf)"
| "pdiv PInf PInf = NaN"
| "pdiv PInf NInf = NaN"
| "pdiv NInf PInf = NaN"
| "pdiv NInf NInf = NaN"

text \<open>\<^verbatim>\<open>x > y\<close>; every comparison with \<^verbatim>\<open>nan\<close> is false.\<close>

fun pgt :: "pyfloat \<Rightarrow> pyfloat \<Rightarrow> bool" where
  "pgt (Fin a) (Fin b) = (b < a)"
| "pgt NaN y = False"
| "pgt x NaN = False"
| "pgt PInf PInf = False"
| "pgt PInf y = True"
| "pgt x PInf = False"
| "pgt NInf y = False"
| "pgt x NInf = True"

text \<open>\<^verbatim>\<open>x ** n\<close> for a float \<open>x\<close> and a Python integer \<open>n\<close>.\<close>

fun ppow :: "pyfloat \<Rightarrow> int \<Rightarrow> pyfloat" where
  "ppow (Fin a) n =
     (if n = 0 then Fin 1
      else if a \<noteq> 0 then Fin (a powi n)
      else if 0 < n then Fin 0 else PInf)"
| "ppow PInf n = (if n = 0 then Fin 1 else if 0 < n then PInf else Fin 0)"
| "ppow NInf n =
     (if n = 0 then Fin 1 else if n < 0 then Fin 0 else if odd n then NInf else PInf)"
| "ppow NaN n = (if n = 0 then Fin 1 else NaN)"

text \<open>
  \<^verbatim>\<open>x ** e\<close> for a float \<open>x\<close> and a float exponent \<open>e\<close>: a negative base with
  a fractional exponent gives \<^verbatim>\<open>nan\<close>, zero to a negative exponent gives
  \<^verbatim>\<open>inf\<close>.
\<close>

fun ppowr :: "pyfloat \<Rightarrow> real \<Rightarrow> pyfloat" where
  "ppowr (Fin a) e =
     (if e = 0 then Fin 1
      else if 0 < a then Fin (a powr e)
      else if a = 0 then (if 0 < e then Fin 0 else PInf)
      else if e \<in> \<int> then Fin (a powi \<lfloor>e\<rfloor>) else NaN)"
| "ppowr PInf e = (if e = 0 then Fin 1 else if 0 < e then PInf else Fin 0)"
| "ppowr NInf e =
     (if e = 0 then Fin 1 else if e < 0 then Fin 0
      else if e \<in> \<int> \<and> odd \<lfloor>e\<rfloor> then NInf else PInf)"
| "ppowr NaN e = (if e = 0 then Fin 1 else NaN)"

text \<open>Python's builtin \<^verbatim>\<open>sum\<close>: it starts from \<open>0\<close> and propagates \<^verbatim>\<open>nan\<close>.\<close>

definition psum :: "pyfloat list \<Rightarrow> pyfloat" where
  "psum xs = foldl padd (Fin 0) xs"

text \<open>
  The pandas reductions \<^verbatim>\<open>Series.sum()\<close> and \<^verbatim>\<open>groupby(...).sum()\<close>:
  missing values (\<^verbatim>\<open>nan\<close>) are skipped, and the sum of nothing is \<open>0\<close>.
\<close>

definition sum_skipna :: "pyfloat list \<Rightarrow> pyfloat" where
  "sum_skipna xs = psum (filter (\<lambda>x. x \<noteq> NaN) xs)"

text \<open>
  A float literal of the source text. A literal beyond the range of a double (the largest
  double is \<open>2 ^ 1024 - 2 ^ 971\<close>, and everything from \<open>2 ^ 1024 - 2 ^ 970\<close> on rounds
  upwards) denotes an infinity.
\<close>

definition float_literal :: "real \<Rightarrow> pyfloat" where
  "float_literal x =
     (if 2 ^ 1024 - 2 ^ 970 \<le> x then PInf
      else if x \<le> - (2 ^ 1024 - 2 ^ 970) then NInf
      else Fin x)"

definition is_finite :: "pyfloat \<Rightarrow> bool" where
  "is_finite x = (case x of Fin a \<Rightarrow> True | PInf \<Rightarrow> False | NInf \<Rightarrow> False | NaN \<Rightarrow> False)"

section \<open>Errors\<close>

datatype error =
  TypeError string
| ValueError string
| AttributeError string
| KeyError string
| ZeroDivisionError string

text \<open>Truthiness of an optional string argument (\<^verbatim>\<open>if product:\<close>).\<close>

definition truthy :: "string option \<Rightarrow> bool" where
  "truthy s = (case s of None \<Rightarrow> False | Some t \<Rightarrow> t \<noteq> [])"

definition str_of :: "string option \<Rightarrow> string" where
  "str_of s = (case s of None \<Rightarrow> ''None'' | Some t \<Rightarrow> t)"

section \<open>metrics.py\<close>

text \<open>
  A networkx graph: the nodes in insertion order, one entry per edge with its attribute
  dictionary. Of the attribute dictionary the three keys the function reads or writes are
  kept; \<open>None\<close> is an absent key.
\<close>

record edge_attrs =
  qty :: "pyfloat option"
  weight_attr :: "pyfloat option"
  inv_weight :: "pyfloat option"

record graph =
  is_directed :: bool
  nodes :: "string list"
  edges :: "(string \<times> string \<times> edge_attrs) list"

record metrics_row =
  Period :: string
  Node :: string
  Degree :: pyfloat
  Out_Degree :: "pyfloat option"
  In_Degree :: "pyfloat option"
  Vulnerability :: pyfloat
  Closeness :: pyfloat
  Betweenness :: pyfloat
  Distinctiveness :: pyfloat

text \<open>\<^verbatim>\<open>d.get("qty", 0)\<close>\<close>

definition get_qty :: "edge_attrs \<Rightarrow> pyfloat" where
  "get_qty d = (case qty d of None \<Rightarrow> Fin 0 | Some q \<Rightarrow> q)"

text \<open>\<^verbatim>\<open>total_weight = sum(d.get("qty", 0) for _, _, d in G.edges(data=True))\<close>\<close>

definition total_weight :: "graph \<Rightarrow> pyfloat" where
  "total_weight G = psum (map (\<lambda>(u, v, d). get_qty d) (edges G))"

text \<open>
  The first loop of \<^verbatim>\<open>calculate_node_metrics\<close>: every edge gets the attribute
  \<^verbatim>\<open>weight\<close>, in place.
\<close>

definition normalized_weight :: "pyfloat \<Rightarrow> edge_attrs \<Rightarrow> pyfloat" where
  "normalized_weight tw d = (if pgt tw (Fin 0) then pdiv (get_qty d) tw else Fin 0)"

definition normalize_weights :: "graph \<Rightarrow> graph" where
  "normalize_weights G =
     G\<lparr>edges := map (\<lambda>(u, v, d). (u, v, d\<lparr>weight_attr := Some (normalized_weight (total_weight G) d)\<rparr>))
                    (edges G)\<rparr>"

text \<open>The weight networkx reads for a weighted degree: \<^verbatim>\<open>dd.get("weight", 1)\<close>.\<close>

definition get_weight :: "edge_attrs \<Rightarrow> pyfloat" where
  "get_weight d = (case weight_attr d of None \<Rightarrow> Fin 1 | Some w \<Rightarrow> w)"

definition out_degree :: "graph \<Rightarrow> string \<Rightarrow> pyfloat" where
  "out_degree G n = psum (map (\<lambda>(u, v, d). get_weight d) (filter (\<lambda>(u, v, d). u = n) (edges G)))"

definition in_degree :: "graph \<Rightarrow> string \<Rightarrow> pyfloat" where
  "in_degree G n = psum (map (\<lambda>(u, v, d). get_weight d) (filter (\<lambda>(u, v, d). v = n) (edges G)))"

text \<open>
  \<^verbatim>\<open>G.degree(weight="weight")\<close>: successors plus predecessors in a directed graph;
  the incident edges, a self-loop twice, in an undirected one.
\<close>

definition degree :: "graph \<Rightarrow> string \<Rightarrow> pyfloat" where
  "degree G n =
     (if is_directed G then padd (out_degree G n) (in_degree G n)
      else padd (psum (map (\<lambda>(u, v, d). get_weight d)
                         (filter (\<lambda>(u, v, d). u = n \<or> v = n) (edges G))))
                (psum (map (\<lambda>(u, v, d). get_weight d)
                         (filter (\<lambda>(u, v, d). u = n \<and> v = n) (edges G)))))"

text \<open>
  \<^verbatim>\<open>out_deg\<close> and \<^verbatim>\<open>in_deg\<close>: the weighted degrees of a directed graph,
  Python's \<^verbatim>\<open>None\<close> for every node of an undirected one.
\<close>

definition out_deg :: "graph \<Rightarrow> string \<Rightarrow> pyfloat option" where
  "out_deg G n = (if is_directed G then Some (out_degree G n) else None)"

definition in_deg :: "graph \<Rightarrow> string \<Rightarrow> pyfloat option" where
  "in_deg G n = (if is_directed G then Some (in_degree G n) else None)"

text \<open>
  The body of the vulnerability loop for one item \<open>(k, v)\<close> of \<^verbatim>\<open>in_deg\<close>.
  \<^verbatim>\<open>None != 0\<close> is true and \<^verbatim>\<open>1 - None\<close> raises.
\<close>

definition vulnerability_item :: "pyfloat option \<Rightarrow> error + pyfloat" where
  "vulnerability_item v =
     (case v of
        None \<Rightarrow> Inl (TypeError ''unsupported operand type(s) for -: int and NoneType'')
      | Some x \<Rightarrow> Inr (if x \<noteq> Fin 0 then psub (Fin 1) x else Fin 0))"

fun vulnerability :: "(string \<times> pyfloat option) list \<Rightarrow> error + (string \<times> pyfloat) list" where
  "vulnerability [] = Inr []"
| "vulnerability ((k, v) # items) =
     (case vulnerability_item v of
        Inl e \<Rightarrow> Inl e
      | Inr x \<Rightarrow> (case vulnerability items of
                    Inl e \<Rightarrow> Inl e
                  | Inr rest \<Rightarrow> Inr ((k, x) # rest)))"

text \<open>
  \<^verbatim>\<open>inv_w\<close>: the distance of an edge. The literal \<^verbatim>\<open>1e9999\<close> is read as a
  double.
\<close>

definition inv_w :: "edge_attrs \<Rightarrow> pyfloat" where
  "inv_w d =
     (let w = (case weight_attr d of None \<Rightarrow> Fin 0 | Some w \<Rightarrow> w)
      in if pgt w (Fin 0) then pdiv (Fin 1) w else float_literal (10 ^ 9999))"

text \<open>\<^verbatim>\<open>nx.set_edge_attributes(G, inv_w, "inv_weight")\<close>\<close>

definition set_inv_weight :: "graph \<Rightarrow> graph" where
  "set_inv_weight G =
     G\<lparr>edges := map (\<lambda>(u, v, d). (u, v, d\<lparr>inv_weight := Some (inv_w d)\<rparr>)) (edges G)\<rparr>"

text \<open>
  \<^verbatim>\<open>G.to_undirected()\<close>: the edges are added one by one to an undirected graph; an
  edge between two nodes that are already joined, in either direction, updates the
  attributes of the edge that is there (\<^verbatim>\<open>dict.update\<close>: the keys it has win).
\<close>

definition same_undirected_edge ::
  "(string \<times> string \<times> edge_attrs) \<Rightarrow> (string \<times> string \<times> edge_attrs) \<Rightarrow> bool" where
  "same_undirected_edge x e =
     ((fst x = fst e \<and> fst (snd x) = fst (snd e)) \<or> (fst x = fst (snd e) \<and> fst (snd x) = fst e))"

definition update_attrs :: "edge_attrs \<Rightarrow> edge_attrs \<Rightarrow> edge_attrs" where
  "update_attrs old new =
     \<lparr>qty = (case qty new of None \<Rightarrow> qty old | Some q \<Rightarrow> Some q),
      weight_attr = (case weight_attr new of None \<Rightarrow> weight_attr old | Some w \<Rightarrow> Some w),
      inv_weight = (case inv_weight new of None \<Rightarrow> inv_weight old | Some w \<Rightarrow> Some w)\<rparr>"

fun add_edge ::
  "(string \<times> string \<times> edge_attrs) list \<Rightarrow> (string \<times> string \<times> edge_attrs) \<Rightarrow>
   (string \<times> string \<times> edge_attrs) list" where
  "add_edge [] e = [e]"
| "add_edge (x # xs) e =
     (if same_undirected_edge x e
      then (fst x, fst (snd x), update_attrs (snd (snd x)) (snd (snd e))) # xs
      else x # add_edge xs e)"

definition to_undirected :: "graph \<Rightarrow> graph" where
  "to_undirected G = \<lparr>is_directed = False, nodes = nodes G, edges = foldl add_edge [] (edges G)\<rparr>"

text \<open>
  The closeness and betweenness centralities of networkx and the distinctiveness
  centrality D1 of the distinctiveness package are libraries outside this repository:
  they are parameters, each a function from the graph it is given to the score of a node.
\<close>

definition calculate_node_metrics ::
  "(graph \<Rightarrow> string \<Rightarrow> pyfloat) \<Rightarrow> (graph \<Rightarrow> string \<Rightarrow> pyfloat) \<Rightarrow>
   (graph \<Rightarrow> string \<Rightarrow> pyfloat) \<Rightarrow> graph \<Rightarrow> string \<Rightarrow> error + metrics_row list" where
  "calculate_node_metrics closeness_centrality betweenness_centrality distinctiveness G period' =
     (let G1 = normalize_weights G in
      case vulnerability (map (\<lambda>n. (n, in_deg G1 n)) (nodes G1)) of
        Inl e \<Rightarrow> Inl e
      | Inr vul \<Rightarrow>
          (let G2 = set_inv_weight G1;
               clos = closeness_centrality G2;
               betw = betweenness_centrality G2;
               disti = distinctiveness (to_undirected G2)
           in Inr (map (\<lambda>(n, x).
                     \<lparr>Period = period', Node = n, Degree = degree G1 n,
                      Out_Degree = out_deg G1 n, In_Degree = in_deg G1 n,
                      Vulnerability = x, Closeness = clos n, Betweenness = betw n,
                      Distinctiveness = disti n\<rparr>) vul)))"

section \<open>utils.py: the validated dataset\<close>

text \<open>
  A row of the trade table. The columns \<^verbatim>\<open>source\<close>, \<^verbatim>\<open>target\<close>,
  \<^verbatim>\<open>period\<close>, \<^verbatim>\<open>product\<close> and \<^verbatim>\<open>value\<close> are required by the
  validator; \<^verbatim>\<open>value2\<close> is there when the dataset was loaded with
  \<^verbatim>\<open>two_values=True\<close>, and \<^verbatim>\<open>weight\<close> only when the file had such a
  column. A table records which of the two optional columns it has; the field of an absent
  column is never read.
\<close>

record row =
  source :: string
  target :: string
  period :: string
  product :: string
  value1 :: pyfloat
  value2 :: pyfloat
  weight :: pyfloat

record frame =
  has_value2 :: bool
  has_weight :: bool
  rows :: "row list"

text \<open>One row of the table \<^verbatim>\<open>simulate_shock\<close> attaches to the dataset.\<close>

record shock_row =
  s_source :: string
  s_target :: string
  s_period :: string
  s_product :: string
  s_value :: pyfloat
  s_value2 :: pyfloat
  price :: pyfloat
  alpha :: pyfloat
  share_base :: pyfloat
  share_post :: pyfloat
  q_base :: pyfloat
  q_new :: pyfloat
  q_delta :: pyfloat

text \<open>
  A \<^verbatim>\<open>TerraDataset\<close> object: the attribute \<^verbatim>\<open>data\<close> set by the constructor
  and the attribute \<^verbatim>\<open>simulation\<close> that \<^verbatim>\<open>simulate_shock\<close> sets. The
  configuration attributes (\<^verbatim>\<open>mode\<close>, \<^verbatim>\<open>sep\<close>, ...) are not read by
  core.py.
\<close>

record TerraDataset =
  data :: frame
  simulation :: "shock_row list option"

text \<open>
  The class defines no attribute \<^verbatim>\<open>empty\<close> and no \<^verbatim>\<open>__getattr__\<close>:
  reading \<^verbatim>\<open>df.empty\<close> on a \<^verbatim>\<open>TerraDataset\<close> raises.
\<close>

definition TerraDataset_empty :: "TerraDataset \<Rightarrow> error + bool" where
  "TerraDataset_empty df = Inl (AttributeError ''TerraDataset object has no attribute empty'')"

section \<open>core.py: analyze\_basket\<close>

text \<open>
  \<^verbatim>\<open>df.loc[:, ['source', 'target']] = df[['target', 'source']].values\<close>
\<close>

definition swap_source_target :: "frame \<Rightarrow> frame" where
  "swap_source_target f = f\<lparr>rows := map (\<lambda>r. r\<lparr>source := target r, target := source r\<rparr>) (rows f)\<rparr>"

text \<open>
  \<^verbatim>\<open>groupby(['period'], as_index=False)['weight'].sum()\<close> on a table of
  (period, weight) pairs: one row per period, the periods in ascending order.
\<close>

definition groupby_period_sum :: "(string \<times> pyfloat) list \<Rightarrow> (string \<times> pyfloat) list" where
  "groupby_period_sum t =
     map (\<lambda>p. (p, sum_skipna (map snd (filter (\<lambda>x. fst x = p) t)))) (sort (remdups (map fst t)))"

text \<open>\<^verbatim>\<open>Series.shift(1)\<close>: the first entry is missing.\<close>

definition shift1 :: "pyfloat list \<Rightarrow> pyfloat list" where
  "shift1 xs = (if xs = [] then [] else NaN # butlast xs)"

text \<open>The two assignments of the \<^verbatim>\<open>var\<close> branch.\<close>

definition variation :: "(string \<times> pyfloat) list \<Rightarrow> (string \<times> pyfloat) list" where
  "variation t =
     (let weight_lag = shift1 (map snd t)
      in map (\<lambda>((p, w), l). (p, pdiv (psub w l) l)) (zip t weight_lag))"

text \<open>The filters and the aggregation, on the table \<^verbatim>\<open>df\<close> after the swap.\<close>

definition basket_table ::
  "frame \<Rightarrow> string \<Rightarrow> string option \<Rightarrow> string option \<Rightarrow> bool \<Rightarrow> string \<Rightarrow>
   error + (string \<times> pyfloat) list" where
  "basket_table f country partner product' var direction =
     (let d1 = filter (\<lambda>r. source r = country) (rows f) in
      if d1 = [] then
        Inl (ValueError (''Country '' @ country @ '' in direction '' @ direction @
                         '' is not present in the dataset.''))
      else
        let d2 = (if truthy product' then filter (\<lambda>r. product r = str_of product') d1 else d1) in
        if d2 = [] then
          Inl (ValueError (''Product '' @ str_of product' @ '' in direction '' @ direction @
                           '' is not present in the dataset.''))
        else
          let d3 = (if truthy partner then filter (\<lambda>r. target r = str_of partner) d2 else d2) in
          if d3 = [] then
            Inl (ValueError (''Partner '' @ str_of partner @ '' in direction '' @ direction @
                             '' is not present in the dataset.''))
          else if \<not> has_weight f then Inl (KeyError ''Column not found: weight'')
          else
            let agg = groupby_period_sum (map (\<lambda>r. (period r, weight r)) d3) in
            if var then Inr (variation (sort_key fst (groupby_period_sum agg)))
            else Inr agg)"

text \<open>
  \<^verbatim>\<open>analyze_basket\<close> works on \<^verbatim>\<open>df.data\<close> itself, not on a copy: the swap
  of direction \<open>I\<close> is an assignment into the table the dataset holds. The function
  therefore returns, next to its result, the dataset as the call leaves it.
\<close>

definition analyze_basket ::
  "TerraDataset \<Rightarrow> string \<Rightarrow> string option \<Rightarrow> string option \<Rightarrow> bool \<Rightarrow> string \<Rightarrow>
   (error + (string \<times> pyfloat) list) \<times> TerraDataset" where
  "analyze_basket df country partner product' var direction =
     (if direction \<notin> set [''E'', ''I''] then
        (Inl (ValueError ''Direction must be 'E' for exports or 'I' for imports.''), df)
      else
        let df' = (if direction \<in> set [''I''] then df\<lparr>data := swap_source_target (data df)\<rparr>
                   else df)
        in (basket_table (data df') country partner product' var direction, df'))"

section \<open>core.py: simulate\_shock\<close>

text \<open>
  \<^verbatim>\<open>data.groupby(["source","target","product"], as_index=False)[["value", "value2"]].sum()\<close>:
  selecting a column the table does not have raises; otherwise one row per key, the keys
  ascending.
\<close>

definition groupby_source_target_product ::
  "frame \<Rightarrow> error + ((string \<times> string \<times> string) \<times> pyfloat \<times> pyfloat) list" where
  "groupby_source_target_product f =
     (if \<not> has_value2 f then Inl (KeyError ''Columns not found: value2'')
      else Inr (map (\<lambda>k. (k,
                   sum_skipna (map value1 (filter (\<lambda>r. (source r, target r, product r) = k) (rows f))),
                   sum_skipna (map value2 (filter (\<lambda>r. (source r, target r, product r) = k) (rows f)))))
                 (sort (remdups (map (\<lambda>r. (source r, target r, product r)) (rows f))))))"

text \<open>
  The \<^verbatim>\<open>if product: ... else: ...\<close> statement. With a product the rows are
  filtered and then \<^verbatim>\<open>df.empty\<close> is read, where \<^verbatim>\<open>df\<close> is the
  \<^verbatim>\<open>TerraDataset\<close>, not the table. Without a product the grouped sums are computed
  and dropped: the statement is an expression whose value is bound to nothing.
\<close>

definition select_product ::
  "TerraDataset \<Rightarrow> frame \<Rightarrow> string option \<Rightarrow> string \<Rightarrow> error + frame" where
  "select_product df data' product' country_from =
     (if truthy product' then
        (let data'' = data'\<lparr>rows := filter (\<lambda>r. product r = str_of product') (rows data')\<rparr> in
         case TerraDataset_empty df of
           Inl e \<Rightarrow> Inl e
         | Inr b \<Rightarrow>
             if b then Inl (ValueError (''No data found for product '' @ str_of product' @
                                        '' trade by '' @ country_from @ ''.''))
             else Inr data'')
      else
        (case groupby_source_target_product data' of
           Inl e \<Rightarrow> Inl e
         | Inr discarded \<Rightarrow> Inr data'))"

text \<open>
  The columns of \<^verbatim>\<open>df_shock\<close>. Each is given as the value it has in the row \<open>r\<close>
  of the basket \<open>b\<close> (the rows with \<^verbatim>\<open>target == country_to\<close>); the sums range
  over the whole basket.
\<close>

definition col_price :: "row \<Rightarrow> pyfloat" where
  "col_price r = pdiv (value1 r) (value2 r)"

definition col_alpha0 :: "int \<Rightarrow> row \<Rightarrow> pyfloat" where
  "col_alpha0 sigma r = pmul (value2 r) (ppow (col_price r) (sigma - 1))"

definition col_alpha :: "int \<Rightarrow> row list \<Rightarrow> row \<Rightarrow> pyfloat" where
  "col_alpha sigma b r = pdiv (col_alpha0 sigma r) (sum_skipna (map (col_alpha0 sigma) b))"

definition Q_tot :: "row list \<Rightarrow> pyfloat" where
  "Q_tot b = sum_skipna (map value2 b)"

definition col_weight :: "int \<Rightarrow> row list \<Rightarrow> row \<Rightarrow> pyfloat" where
  "col_weight sigma b r = pmul (col_alpha sigma b r) (ppow (col_price r) (1 - sigma))"

definition col_share_base :: "int \<Rightarrow> row list \<Rightarrow> row \<Rightarrow> pyfloat" where
  "col_share_base sigma b r =
     pdiv (col_weight sigma b r) (sum_skipna (map (col_weight sigma b) b))"

definition P_base :: "int \<Rightarrow> row list \<Rightarrow> pyfloat" where
  "P_base sigma b =
     ppowr (sum_skipna (map (\<lambda>r. pmul (col_alpha sigma b r) (ppow (col_price r) (1 - sigma))) b))
           (1 / real_of_int (1 - sigma))"

definition E_base :: "int \<Rightarrow> row list \<Rightarrow> pyfloat" where
  "E_base sigma b = pmul (P_base sigma b) (Q_tot b)"

definition col_q_base :: "int \<Rightarrow> row list \<Rightarrow> row \<Rightarrow> pyfloat" where
  "col_q_base sigma b r = pdiv (pmul (col_share_base sigma b r) (E_base sigma b)) (col_price r)"

text \<open>\<^verbatim>\<open>df_shock.loc[df_shock.source == country_from, "alpha"] = 0\<close>\<close>

definition col_alpha_post :: "string \<Rightarrow> int \<Rightarrow> row list \<Rightarrow> row \<Rightarrow> pyfloat" where
  "col_alpha_post country_from sigma b r =
     (if source r = country_from then Fin 0 else col_alpha sigma b r)"

definition col_weight_post :: "string \<Rightarrow> int \<Rightarrow> row list \<Rightarrow> row \<Rightarrow> pyfloat" where
  "col_weight_post country_from sigma b r =
     pmul (col_alpha_post country_from sigma b r) (ppow (col_price r) (1 - sigma))"

definition col_share_post :: "string \<Rightarrow> int \<Rightarrow> row list \<Rightarrow> row \<Rightarrow> pyfloat" where
  "col_share_post country_from sigma b r =
     (if sum_skipna (map (col_weight_post country_from sigma b) b) \<noteq> Fin 0
      then pdiv (col_weight_post country_from sigma b r)
                (sum_skipna (map (col_weight_post country_from sigma b) b))
      else Fin 0)"

definition P_new :: "string \<Rightarrow> int \<Rightarrow> row list \<Rightarrow> pyfloat" where
  "P_new country_from sigma b =
     ppowr (sum_skipna (map (\<lambda>r. pmul (col_alpha_post country_from sigma b r)
                                       (ppow (col_price r) (1 - sigma))) b))
           (1 / real_of_int (1 - sigma))"

definition E_new :: "string \<Rightarrow> int \<Rightarrow> row list \<Rightarrow> pyfloat" where
  "E_new country_from sigma b = pmul (P_new country_from sigma b) (Q_tot b)"

definition col_q_new :: "string \<Rightarrow> int \<Rightarrow> row list \<Rightarrow> row \<Rightarrow> pyfloat" where
  "col_q_new country_from sigma b r =
     (if col_price r \<noteq> Fin 0
      then pdiv (pmul (col_share_post country_from sigma b r) (E_new country_from sigma b))
                (col_price r)
      else Fin 0)"

definition shock_table :: "string \<Rightarrow> int \<Rightarrow> row list \<Rightarrow> shock_row list" where
  "shock_table country_from sigma b =
     map (\<lambda>r. \<lparr>s_source = source r, s_target = target r, s_period = period r,
               s_product = product r, s_value = value1 r, s_value2 = value2 r,
               price = col_price r, alpha = col_alpha_post country_from sigma b r,
               share_base = col_share_base sigma b r,
               share_post = col_share_post country_from sigma b r,
               q_base = col_q_base sigma b r, q_new = col_q_new country_from sigma b r,
               q_delta = psub (col_q_new country_from sigma b r) (col_q_base sigma b r)\<rparr>) b"

text \<open>
  \<^verbatim>\<open>simulate_shock\<close>. The table is copied first, so the dataset's own table is not
  touched; the result is the dataset with the attribute \<^verbatim>\<open>simulation\<close> set.
  \<^verbatim>\<open>1 / (1 - sigma)\<close> is a division of Python integers and raises for
  \<open>sigma = 1\<close>.
\<close>

definition simulate_shock ::
  "TerraDataset \<Rightarrow> string \<Rightarrow> string \<Rightarrow> string \<Rightarrow> string option \<Rightarrow> int \<Rightarrow>
   error + TerraDataset" where
  "simulate_shock df country_from country_to period' product' sigma =
     (let data0 = data df;
          data1 = data0\<lparr>rows := filter (\<lambda>r. period r = period') (rows data0)\<rparr>
      in
      if rows data1 = [] then
        Inl (ValueError (''Period '' @ period' @ '' is not present in the dataset.''))
      else
        case select_product df data1 product' country_from of
          Inl e \<Rightarrow> Inl e
        | Inr data2 \<Rightarrow>
            if filter (\<lambda>r. source r \<noteq> country_from \<and> target r = country_to) (rows data2) = [] then
              Inl (ValueError (''Simulation not applicable, since there is only '' @ country_from @
                               '' as supplier for '' @ country_to @ ''.''))
            else if \<not> has_value2 data2 then Inl (KeyError ''value2'')
            else if sigma = 1 then Inl (ZeroDivisionError ''division by zero'')
            else
              Inr (df\<lparr>simulation :=
                        Some (shock_table country_from sigma
                                (filter (\<lambda>r. target r = country_to) (rows data2)))\<rparr>))"

section \<open>Auxiliary definitions and example data\<close>

text \<open>A stand-in for the three library centralities: every node scores \<open>0\<close>.\<close>

definition zero_centrality :: "graph \<Rightarrow> string \<Rightarrow> pyfloat" where
  "zero_centrality G n = Fin 0"

text \<open>An undirected graph with one edge that carries no quantity.\<close>

definition undirected_graph :: graph where
  "undirected_graph =
     \<lparr>is_directed = False, nodes = [''A'', ''B''],
      edges = [(''A'', ''B'', \<lparr>qty = None, weight_attr = None, inv_weight = None\<rparr>)]\<rparr>"

text \<open>A directed path \<open>A \<rightarrow> B \<rightarrow> C\<close> with quantities 3 and 1.\<close>

definition path_graph :: graph where
  "path_graph =
     \<lparr>is_directed = True, nodes = [''A'', ''B'', ''C''],
      edges = [(''A'', ''B'', \<lparr>qty = Some (Fin 3), weight_attr = None, inv_weight = None\<rparr>),
               (''B'', ''C'', \<lparr>qty = Some (Fin 1), weight_attr = None, inv_weight = None\<rparr>)]\<rparr>"

definition path_metrics :: "metrics_row list" where
  "path_metrics =
     [\<lparr>Period = ''2020'', Node = ''A'', Degree = Fin (3 / 4), Out_Degree = Some (Fin (3 / 4)),
       In_Degree = Some (Fin 0), Vulnerability = Fin 0, Closeness = Fin 0,
       Betweenness = Fin 0, Distinctiveness = Fin 0\<rparr>,
      \<lparr>Period = ''2020'', Node = ''B'', Degree = Fin 1, Out_Degree = Some (Fin (1 / 4)),
       In_Degree = Some (Fin (3 / 4)), Vulnerability = Fin (1 / 4), Closeness = Fin 0,
       Betweenness = Fin 0, Distinctiveness = Fin 0\<rparr>,
      \<lparr>Period = ''2020'', Node = ''C'', Degree = Fin (1 / 4), Out_Degree = Some (Fin 0),
       In_Degree = Some (Fin (1 / 4)), Vulnerability = Fin (3 / 4), Closeness = Fin 0,
       Betweenness = Fin 0, Distinctiveness = Fin 0\<rparr>]"

text \<open>The same path, the second edge with quantity 0.\<close>

definition zero_edge_graph :: graph where
  "zero_edge_graph =
     \<lparr>is_directed = True, nodes = [''A'', ''B'', ''C''],
      edges = [(''A'', ''B'', \<lparr>qty = Some (Fin 3), weight_attr = None, inv_weight = None\<rparr>),
               (''B'', ''C'', \<lparr>qty = Some (Fin 0), weight_attr = None, inv_weight = None\<rparr>)]\<rparr>"

definition zero_edge_attrs :: edge_attrs where
  "zero_edge_attrs = \<lparr>qty = Some (Fin 0), weight_attr = Some (Fin 0), inv_weight = Some PInf\<rparr>"

text \<open>Rows of a trade table with finite numbers.\<close>

definition mk_row ::
  "string \<Rightarrow> string \<Rightarrow> string \<Rightarrow> string \<Rightarrow> real \<Rightarrow> real \<Rightarrow> real \<Rightarrow> row" where
  "mk_row s t p pr v v2 w =
     \<lparr>source = s, target = t, period = p, product = pr, value1 = Fin v, value2 = Fin v2,
      weight = Fin w\<rparr>"

text \<open>A exports to B and C in 2019 and to B in 2020.\<close>

definition basket_ds :: TerraDataset where
  "basket_ds =
     \<lparr>data = \<lparr>has_value2 = True, has_weight = True,
              rows = [mk_row ''A'' ''B'' ''2020'' ''P1'' 10 5 45,
                      mk_row ''A'' ''B'' ''2019'' ''P1'' 10 5 10,
                      mk_row ''A'' ''C'' ''2019'' ''P1'' 10 5 20]\<rparr>,
      simulation = None\<rparr>"

text \<open>A single flow from A to B, and the same table with the two columns exchanged.\<close>

definition imports_ds :: TerraDataset where
  "imports_ds =
     \<lparr>data = \<lparr>has_value2 = True, has_weight = True,
              rows = [mk_row ''A'' ''B'' ''2020'' ''P1'' 10 5 10]\<rparr>,
      simulation = None\<rparr>"

definition imports_ds_after :: TerraDataset where
  "imports_ds_after =
     \<lparr>data = \<lparr>has_value2 = True, has_weight = True,
              rows = [mk_row ''B'' ''A'' ''2020'' ''P1'' 10 5 10]\<rparr>,
      simulation = None\<rparr>"

text \<open>Numbers that are finite and positive, or finite and not negative.\<close>

definition positive_finite :: "pyfloat \<Rightarrow> bool" where
  "positive_finite x = (\<exists>a. x = Fin a \<and> 0 < a)"

definition nonneg_finite :: "pyfloat \<Rightarrow> bool" where
  "nonneg_finite x = (\<exists>a. x = Fin a \<and> 0 \<le> a)"

text \<open>
  The importer's basket \<^verbatim>\<open>df_shock\<close> of a call without a product: the rows of the
  period with \<^verbatim>\<open>target == country_to\<close>.
\<close>

definition basket :: "TerraDataset \<Rightarrow> string \<Rightarrow> string \<Rightarrow> row list" where
  "basket df per ct = filter (\<lambda>r. target r = ct) (filter (\<lambda>r. period r = per) (rows (data df)))"

text \<open>The six columns a row of the simulation takes over from the dataset.\<close>

definition input_columns ::
  "shock_row \<Rightarrow> string \<times> string \<times> string \<times> string \<times> pyfloat \<times> pyfloat" where
  "input_columns r = (s_source r, s_target r, s_period r, s_product r, s_value r, s_value2 r)"

definition row_columns ::
  "row \<Rightarrow> string \<times> string \<times> string \<times> string \<times> pyfloat \<times> pyfloat" where
  "row_columns r = (source r, target r, period r, product r, value1 r, value2 r)"

text \<open>Readings of the result of \<^verbatim>\<open>simulate_shock\<close>; \<open>None\<close> when it raised.\<close>

definition q_new_of :: "error + TerraDataset \<Rightarrow> pyfloat list option" where
  "q_new_of res = (case res of Inl e \<Rightarrow> None | Inr d \<Rightarrow> map_option (map q_new) (simulation d))"

definition share_post_q_new ::
  "error + TerraDataset \<Rightarrow> (pyfloat \<times> pyfloat \<times> pyfloat) list option" where
  "share_post_q_new res =
     (case res of Inl e \<Rightarrow> None
      | Inr d \<Rightarrow> map_option (map (\<lambda>r. (price r, share_post r, q_new r))) (simulation d))"

text \<open>The sums of \<^verbatim>\<open>q_base\<close>, of \<^verbatim>\<open>q_new\<close> and of \<^verbatim>\<open>value2\<close>.\<close>

definition volumes :: "error + TerraDataset \<Rightarrow> (pyfloat \<times> pyfloat \<times> pyfloat) option" where
  "volumes res =
     (case res of Inl e \<Rightarrow> None
      | Inr d \<Rightarrow> map_option (\<lambda>sim. (sum_skipna (map q_base sim), sum_skipna (map q_new sim),
                                     sum_skipna (map s_value2 sim))) (simulation d))"

text \<open>The sums of \<open>price * q_base\<close> and of \<open>price * q_new\<close>.\<close>

definition spending :: "error + TerraDataset \<Rightarrow> (pyfloat \<times> pyfloat) option" where
  "spending res =
     (case res of Inl e \<Rightarrow> None
      | Inr d \<Rightarrow> map_option (\<lambda>sim. (sum_skipna (map (\<lambda>r. pmul (price r) (q_base r)) sim),
                                     sum_skipna (map (\<lambda>r. pmul (price r) (q_new r)) sim)))
                   (simulation d))"

text \<open>A is the only supplier of C.\<close>

definition sole_ds :: TerraDataset where
  "sole_ds =
     \<lparr>data = \<lparr>has_value2 = True, has_weight = False,
              rows = [mk_row ''A'' ''C'' ''2020'' ''P1'' 10 5 0]\<rparr>,
      simulation = None\<rparr>"

text \<open>A and B supply C; B's row has value 0 and quantity 0.\<close>

definition two_supplier_ds :: TerraDataset where
  "two_supplier_ds =
     \<lparr>data = \<lparr>has_value2 = True, has_weight = False,
              rows = [mk_row ''A'' ''C'' ''2020'' ''P1'' 10 5 0,
                      mk_row ''B'' ''C'' ''2020'' ''P1'' 0 0 0]\<rparr>,
      simulation = None\<rparr>"

text \<open>A and B supply C; B's row has value 0, so its price is 0.\<close>

definition zero_price_ds :: TerraDataset where
  "zero_price_ds =
     \<lparr>data = \<lparr>has_value2 = True, has_weight = False,
              rows = [mk_row ''A'' ''C'' ''2020'' ''P1'' 10 5 0,
                      mk_row ''B'' ''C'' ''2020'' ''P1'' 0 3 0]\<rparr>,
      simulation = None\<rparr>"

text \<open>Two products from A to C, and rows of another importer and another period.\<close>

definition multi_product_ds :: TerraDataset where
  "multi_product_ds =
     \<lparr>data = \<lparr>has_value2 = True, has_weight = False,
              rows = [mk_row ''A'' ''C'' ''2020'' ''P1'' 1 1 0,
                      mk_row ''A'' ''C'' ''2020'' ''P2'' 4 2 0,
                      mk_row ''B'' ''C'' ''2020'' ''P1'' 2 1 0,
                      mk_row ''B'' ''D'' ''2020'' ''P1'' 7 7 0,
                      mk_row ''B'' ''C'' ''2019'' ''P1'' 9 9 0]\<rparr>,
      simulation = None\<rparr>"

text \<open>A and B supply one unit each to C, at the prices 1 and 2.\<close>

definition price_ds :: TerraDataset where
  "price_ds =
     \<lparr>data = \<lparr>has_value2 = True, has_weight = False,
              rows = [mk_row ''A'' ''C'' ''2020'' ''P1'' 1 1 0,
                      mk_row ''B'' ''C'' ''2020'' ''P1'' 2 1 0]\<rparr>,
      simulation = None\<rparr>"

section \<open>Sums\<close>

lemma foldl_padd_Fin: "foldl padd (Fin a) (map Fin xs) = Fin (a + sum_list xs)"
  by (induction xs arbitrary: a) (simp_all add: add.assoc)

lemma psum_map_Fin: "psum (map Fin xs) = Fin (sum_list xs)"
  by (simp add: psum_def foldl_padd_Fin)

lemma padd_eq_Fin: "padd x y = Fin t \<Longrightarrow> \<exists>a b. x = Fin a \<and> y = Fin b"
  by (cases x; cases y) simp_all

lemma foldl_padd_eq_Fin:
  "foldl padd acc xs = Fin t \<Longrightarrow> (\<exists>a. acc = Fin a) \<and> (\<forall>x\<in>set xs. \<exists>a. x = Fin a)"
proof (induction xs arbitrary: acc)
  case Nil
  then show ?case by simp
next
  case (Cons x xs)
  from Cons.prems have "foldl padd (padd acc x) xs = Fin t" by simp
  from Cons.IH [OF this] obtain c where c: "padd acc x = Fin c"
    and rest: "\<forall>y\<in>set xs. \<exists>a. y = Fin a" by blast
  from padd_eq_Fin [OF c] rest show ?case by auto
qed

lemma psum_eq_Fin: "psum xs = Fin t \<Longrightarrow> \<forall>x\<in>set xs. \<exists>a. x = Fin a"
  unfolding psum_def by (drule foldl_padd_eq_Fin) simp

section \<open>The node metrics\<close>

lemma nodes_normalize_weights [simp]: "nodes (normalize_weights G) = nodes G"
  by (simp add: normalize_weights_def)

lemma is_directed_normalize_weights [simp]:
  "is_directed (normalize_weights G) = is_directed G"
  by (simp add: normalize_weights_def)

lemma float_literal_1e9999: "float_literal (10 ^ 9999) = PInf"
proof -
  have a: "(2::real) ^ 1024 \<le> 10 ^ 1024" by (rule power_mono) simp_all
  have b: "(10::real) ^ 1024 \<le> 10 ^ 9999" by (rule power_increasing) simp_all
  have c: "(0::real) \<le> 2 ^ 970" by (rule zero_le_power) simp
  from a b c have "(2::real) ^ 1024 - 2 ^ 970 \<le> 10 ^ 9999" by linarith
  then show ?thesis unfolding float_literal_def by (rule if_P)
qed

lemma inv_w_Some:
  "inv_w (d\<lparr>weight_attr := Some w\<rparr>) = (if pgt w (Fin 0) then pdiv (Fin 1) w else PInf)"
  by (simp only: inv_w_def Let_def float_literal_1e9999) simp

lemma edges_set_inv_weight:
  "edges (set_inv_weight (normalize_weights G)) =
   map (\<lambda>(u, v, d).
          (u, v, d\<lparr>weight_attr := Some (normalized_weight (total_weight G) d),
                   inv_weight := Some (inv_w (d\<lparr>weight_attr :=
                                      Some (normalized_weight (total_weight G) d)\<rparr>))\<rparr>))
       (edges G)"
  by (simp add: set_inv_weight_def normalize_weights_def case_prod_beta)

lemma vulnerability_Inr:
  "vulnerability items = Inr vul \<Longrightarrow> (k, x) \<in> set vul \<Longrightarrow>
   \<exists>v. (k, v) \<in> set items \<and> vulnerability_item v = Inr x"
proof (induction items arbitrary: vul)
  case Nil
  then show ?case by simp
next
  case (Cons kv items)
  obtain k' v where kv: "kv = (k', v)" by (cases kv)
  from Cons.prems(1) kv obtain x' rest where v: "vulnerability_item v = Inr x'"
    and rest: "vulnerability items = Inr rest"
    and vul: "vul = (k', x') # rest"
    by (simp split: sum.splits)
  from Cons.prems(2) vul consider "k = k' \<and> x = x'" | "(k, x) \<in> set rest" by auto
  then show ?case
  proof cases
    case 1
    with kv v show ?thesis by auto
  next
    case 2
    from Cons.IH [OF rest 2] show ?thesis by auto
  qed
qed

lemma vulnerability_item_Inr:
  "vulnerability_item v = Inr x \<Longrightarrow>
   \<exists>y. v = Some y \<and> x = (if y \<noteq> Fin 0 then psub (Fin 1) y else Fin 0)"
  by (cases v) (simp_all add: vulnerability_item_def)

lemma path_graph_metrics:
  "calculate_node_metrics zero_centrality zero_centrality zero_centrality path_graph ''2020''
   = Inr path_metrics"
  by (simp add: calculate_node_metrics_def path_graph_def path_metrics_def Let_def
      normalize_weights_def total_weight_def psum_def get_qty_def normalized_weight_def
      in_deg_def in_degree_def out_deg_def out_degree_def degree_def get_weight_def
      vulnerability_item_def psub_def zero_centrality_def)

lemma zero_edge_graph_edges:
  "edges (set_inv_weight (normalize_weights zero_edge_graph)) =
     [(''A'', ''B'', \<lparr>qty = Some (Fin 3), weight_attr = Some (Fin 1), inv_weight = Some (Fin 1)\<rparr>),
      (''B'', ''C'', zero_edge_attrs)]"
  by (simp add: edges_set_inv_weight inv_w_Some zero_edge_graph_def zero_edge_attrs_def
      total_weight_def psum_def get_qty_def normalized_weight_def)

text \<open>
  C5 (as the code has it). After \<^verbatim>\<open>calculate_node_metrics\<close> has set the distances,
  every edge has a weight \<open>w\<close>; where \<open>w\<close> is a positive number \<open>x\<close> the attribute
  \<^verbatim>\<open>inv_weight\<close> is \<open>1 / x\<close>, and where \<open>w\<close> is not above zero it is the value of
  the literal \<^verbatim>\<open>1e9999\<close>, which is the infinity of the doubles, not a finite number.
\<close>

theorem inv_weight_of_edge:
  assumes "(u, v, d) \<in> set (edges (set_inv_weight (normalize_weights G)))"
  shows "\<exists>w. weight_attr d = Some w \<and>
     (\<forall>x. w = Fin x \<and> 0 < x \<longrightarrow> inv_weight d = Some (Fin (1 / x))) \<and>
     (\<not> pgt w (Fin 0) \<longrightarrow> inv_weight d = Some PInf \<and> \<not> is_finite PInf)"
  using assms unfolding edges_set_inv_weight
  by (auto simp only: inv_w_Some set_map case_prod_beta) (auto simp: is_finite_def)

theorem inv_weight_of_edge_witness:
  "(''B'', ''C'', zero_edge_attrs) \<in> set (edges (set_inv_weight (normalize_weights zero_edge_graph)))
   \<and> weight_attr zero_edge_attrs = Some (Fin 0) \<and> \<not> pgt (Fin 0) (Fin 0)
   \<and> inv_weight zero_edge_attrs = Some PInf \<and> \<not> is_finite PInf"
  using inv_weight_of_edge [of "''B''" "''C''" zero_edge_attrs zero_edge_graph]
  by (simp add: zero_edge_graph_edges) (simp add: zero_edge_attrs_def is_finite_def)

text \<open>
  C5 as stated fails: on the path whose second edge has quantity 0, that edge gets weight 0
  and the distance \<^verbatim>\<open>inf\<close>, which is not a finite sentinel.
\<close>

theorem inv_weight_sentinel_counterexample:
  "edges (set_inv_weight (normalize_weights zero_edge_graph)) =
     [(''A'', ''B'', \<lparr>qty = Some (Fin 3), weight_attr = Some (Fin 1), inv_weight = Some (Fin 1)\<rparr>),
      (''B'', ''C'', \<lparr>qty = Some (Fin 0), weight_attr = Some (Fin 0), inv_weight = Some PInf\<rparr>)]
   \<and> \<not> is_finite PInf"
  by (simp add: edges_set_inv_weight inv_w_Some zero_edge_graph_def
      total_weight_def psum_def get_qty_def normalized_weight_def is_finite_def)

text \<open>
  C8. Every row of a metrics table that \<^verbatim>\<open>calculate_node_metrics\<close> returns has an
  in-degree \<open>v\<close>, the weighted in-degree of its node in the normalised graph, and its
  vulnerability is \<open>1 - v\<close> when \<open>v\<close> is not zero and \<open>0\<close> when it is.
\<close>

theorem vulnerability_field:
  assumes "calculate_node_metrics clos betw disti G p = Inr rs" and "r \<in> set rs"
  shows "\<exists>v. In_Degree r = Some v \<and> v = in_degree (normalize_weights G) (Node r) \<and>
           Vulnerability r = (if v \<noteq> Fin 0 then psub (Fin 1) v else Fin 0)"
proof -
  let ?G1 = "normalize_weights G"
  let ?items = "map (\<lambda>n. (n, in_deg ?G1 n)) (nodes ?G1)"
  show ?thesis
  proof (cases "vulnerability ?items")
    case (Inl e)
    with assms(1) show ?thesis by (simp add: calculate_node_metrics_def Let_def)
  next
    case (Inr vul)
    with assms(1) have rs: "rs = map (\<lambda>(n, x).
                     \<lparr>Period = p, Node = n, Degree = degree ?G1 n,
                      Out_Degree = out_deg ?G1 n, In_Degree = in_deg ?G1 n,
                      Vulnerability = x, Closeness = clos (set_inv_weight ?G1) n,
                      Betweenness = betw (set_inv_weight ?G1) n,
                      Distinctiveness = disti (to_undirected (set_inv_weight ?G1)) n\<rparr>) vul"
      by (simp add: calculate_node_metrics_def Let_def)
    from assms(2) obtain nx where nx: "nx \<in> set vul"
      and r: "r = (\<lambda>(n, x).
                     \<lparr>Period = p, Node = n, Degree = degree ?G1 n,
                      Out_Degree = out_deg ?G1 n, In_Degree = in_deg ?G1 n,
                      Vulnerability = x, Closeness = clos (set_inv_weight ?G1) n,
                      Betweenness = betw (set_inv_weight ?G1) n,
                      Distinctiveness = disti (to_undirected (set_inv_weight ?G1)) n\<rparr>) nx"
      unfolding rs set_map by blast
    obtain n x where nx_eq: "nx = (n, x)" by (cases nx)
    from r nx_eq have r': "Node r = n" "In_Degree r = in_deg ?G1 n" "Vulnerability r = x"
      by simp_all
    from nx nx_eq have "(n, x) \<in> set vul" by simp
    from vulnerability_Inr [OF Inr this] obtain v where
      mem: "(n, v) \<in> set ?items" and v: "vulnerability_item v = Inr x"
      by blast
    from vulnerability_item_Inr [OF v] obtain y where vy: "v = Some y"
      and x: "x = (if y \<noteq> Fin 0 then psub (Fin 1) y else Fin 0)"
      by blast
    from mem vy have y: "in_deg ?G1 n = Some y" by auto
    then have "is_directed ?G1" by (simp add: in_deg_def split: if_splits)
    with y have "y = in_degree ?G1 n" by (simp add: in_deg_def)
    with y x r' show ?thesis by simp
  qed
qed

theorem vulnerability_field_witness:
  "calculate_node_metrics zero_centrality zero_centrality zero_centrality path_graph ''2020''
     = Inr path_metrics
   \<and> path_metrics ! 1 \<in> set path_metrics
   \<and> In_Degree (path_metrics ! 1) = Some (Fin (3 / 4))
   \<and> in_degree (normalize_weights path_graph) (Node (path_metrics ! 1)) = Fin (3 / 4)
   \<and> Vulnerability (path_metrics ! 1) = Fin (1 / 4)"
proof -
  have mem: "path_metrics ! 1 \<in> set path_metrics" by (simp add: path_metrics_def)
  from vulnerability_field [OF path_graph_metrics mem] path_graph_metrics mem
  show ?thesis by (auto simp: path_metrics_def)
qed

text \<open>
  C2, at an undirected graph whose only edge carries no quantity: the total is 0, and the
  call does not return a table. For an undirected graph \<^verbatim>\<open>in_deg\<close> maps every node to
  \<^verbatim>\<open>None\<close>, and the vulnerability loop computes \<^verbatim>\<open>1 - None\<close>.
\<close>

theorem undirected_graph_raises:
  "total_weight undirected_graph = Fin 0 \<and>
   calculate_node_metrics zero_centrality zero_centrality zero_centrality undirected_graph ''2020''
     = Inl (TypeError ''unsupported operand type(s) for -: int and NoneType'')"
  by (simp add: calculate_node_metrics_def undirected_graph_def Let_def in_deg_def
      vulnerability_item_def total_weight_def psum_def get_qty_def)

section \<open>The basket analysis\<close>

lemma map_fst_groupby: "map fst (groupby_period_sum t) = sort (remdups (map fst t))"
  by (simp add: groupby_period_sum_def comp_def)

lemma filter_key_unique:
  "distinct (map fst t) \<Longrightarrow> x \<in> set t \<Longrightarrow> filter (\<lambda>y. fst y = fst x) t = [x]"
proof (induction t)
  case Nil
  then show ?case by simp
next
  case (Cons a t)
  show ?case
  proof (cases "x = a")
    case True
    from Cons.prems(1) have "fst a \<notin> fst ` set t" by simp
    then have "\<forall>y\<in>set t. fst y \<noteq> fst a" by (metis imageI)
    then have "filter (\<lambda>y. fst y = fst a) t = []" by (simp add: filter_empty_conv)
    with True show ?thesis by simp
  next
    case False
    with Cons.prems have xt: "x \<in> set t" and d: "distinct (map fst t)" by simp_all
    from Cons.prems(1) have "fst a \<notin> fst ` set t" by simp
    with xt have "fst a \<noteq> fst x" by (metis imageI)
    with Cons.IH [OF d xt] show ?thesis by simp
  qed
qed

lemma groupby_sorted_distinct:
  assumes "sorted (map fst t)" and "distinct (map fst t)"
  shows "groupby_period_sum t = map (\<lambda>x. (fst x, sum_skipna [snd x])) t"
proof -
  have keys: "sort (remdups (map fst t)) = map fst t"
    using assms by (simp add: distinct_remdups_id sort_key_id_if_sorted)
  have "groupby_period_sum t =
        map (\<lambda>x. (fst x, sum_skipna (map snd (filter (\<lambda>y. fst y = fst x) t)))) t"
    by (simp add: groupby_period_sum_def keys comp_def)
  also have "\<dots> = map (\<lambda>x. (fst x, sum_skipna [snd x])) t"
    by (rule map_cong) (simp_all add: filter_key_unique [OF assms(2)])
  finally show ?thesis .
qed

lemma sorted_groupby: "sorted (map fst (groupby_period_sum t))"
  by (simp add: map_fst_groupby)

lemma distinct_groupby: "distinct (map fst (groupby_period_sum t))"
  by (simp add: map_fst_groupby)

lemma length_variation: "length (variation t) = length t"
  by (simp add: variation_def shift1_def Let_def)

lemma shift1_nth: "0 < i \<Longrightarrow> i < length xs \<Longrightarrow> shift1 xs ! i = xs ! (i - 1)"
  by (cases i) (auto simp: shift1_def nth_butlast)

lemma shift1_0: "xs \<noteq> [] \<Longrightarrow> shift1 xs ! 0 = NaN"
  by (simp add: shift1_def)

lemma length_shift1: "length (shift1 xs) = length xs"
  by (simp add: shift1_def)

lemma variation_nth:
  assumes "i < length t"
  shows "variation t ! i =
         (fst (t ! i), pdiv (psub (snd (t ! i)) (shift1 (map snd t) ! i)) (shift1 (map snd t) ! i))"
  using assms by (simp add: variation_def Let_def length_shift1 case_prod_beta)

lemma pdiv_NaN: "pdiv x NaN = NaN"
  by (cases x) simp_all

lemma map_fst_variation: "map fst (variation t) = map fst t"
  by (rule nth_equalityI) (simp_all add: length_variation variation_nth)

lemma basket_table_var:
  assumes "basket_table f c pa pr True dir = Inr t"
  shows "\<exists>agg. basket_table f c pa pr False dir = Inr agg \<and> agg \<noteq> [] \<and>
           sorted (map fst agg) \<and> distinct (map fst agg) \<and>
           t = variation (map (\<lambda>x. (fst x, sum_skipna [snd x])) agg)"
proof -
  define d1 where "d1 = filter (\<lambda>r. source r = c) (rows f)"
  define d2 where "d2 = (if truthy pr then filter (\<lambda>r. product r = str_of pr) d1 else d1)"
  define d3 where "d3 = (if truthy pa then filter (\<lambda>r. target r = str_of pa) d2 else d2)"
  define agg where "agg = groupby_period_sum (map (\<lambda>r. (period r, weight r)) d3)"
  have bt: "\<And>var. basket_table f c pa pr var dir =
     (if d1 = [] then Inl (ValueError (''Country '' @ c @ '' in direction '' @ dir @
                         '' is not present in the dataset.''))
      else if d2 = [] then Inl (ValueError (''Product '' @ str_of pr @ '' in direction '' @ dir @
                           '' is not present in the dataset.''))
      else if d3 = [] then Inl (ValueError (''Partner '' @ str_of pa @ '' in direction '' @ dir @
                             '' is not present in the dataset.''))
      else if \<not> has_weight f then Inl (KeyError ''Column not found: weight'')
      else if var then Inr (variation (sort_key fst (groupby_period_sum agg))) else Inr agg)"
    unfolding basket_table_def d1_def d2_def d3_def agg_def Let_def by simp
  from assms have ok: "d1 \<noteq> []" "d2 \<noteq> []" "d3 \<noteq> []" "has_weight f"
    and t: "t = variation (sort_key fst (groupby_period_sum agg))"
    unfolding bt by (simp_all split: if_splits)
  have s: "sorted (map fst agg)" and d: "distinct (map fst agg)"
    unfolding agg_def by (rule sorted_groupby, rule distinct_groupby)
  have ne: "agg \<noteq> []"
  proof
    assume "agg = []"
    then have "map fst agg = []" by simp
    then have "sort (remdups (map fst (map (\<lambda>r. (period r, weight r)) d3))) = []"
      unfolding agg_def map_fst_groupby .
    then have "set (sort (remdups (map fst (map (\<lambda>r. (period r, weight r)) d3)))) = {}" by simp
    then have "d3 = []" by simp
    with ok show False by simp
  qed
  let ?g = "map (\<lambda>x. (fst x, sum_skipna [snd x])) agg"
  have g: "groupby_period_sum agg = ?g" by (rule groupby_sorted_distinct [OF s d])
  have "map fst ?g = map fst agg" by (simp add: comp_def)
  with s have "sorted (map fst ?g)" by (simp only:)
  then have "sort_key fst ?g = ?g" by (rule sort_key_id_if_sorted)
  with t g have "t = variation ?g" by simp
  moreover from ok have "basket_table f c pa pr False dir = Inr agg" unfolding bt by simp
  ultimately show ?thesis using s d ne by blast
qed

lemma fst_analyze_basket:
  "fst (analyze_basket df c pa pr var dir) = Inr t \<Longrightarrow>
   dir \<in> set [''E'', ''I''] \<and>
   basket_table (data (snd (analyze_basket df c pa pr var dir))) c pa pr var dir = Inr t"
  by (simp add: analyze_basket_def Let_def split: if_splits)

lemma snd_analyze_basket:
  "snd (analyze_basket df c pa pr var dir) = snd (analyze_basket df c pa pr var' dir)"
  by (simp add: analyze_basket_def Let_def)

lemma fst_analyze_basket_ok:
  "dir \<in> set [''E'', ''I''] \<Longrightarrow>
   fst (analyze_basket df c pa pr var dir) =
   basket_table (data (snd (analyze_basket df c pa pr var dir))) c pa pr var dir"
  by (simp add: analyze_basket_def Let_def)

lemma sum_skipna_single: "sum_skipna [x] = (if x = NaN then Fin 0 else x)"
  by (cases x) (simp_all add: sum_skipna_def psum_def)

text \<open>
  C9. When \<^verbatim>\<open>analyze_basket\<close> returns a table for \<^verbatim>\<open>var=True\<close>, the call
  with \<^verbatim>\<open>var=False\<close> returns the aggregated weights \<open>agg\<close> of the same periods;
  the periods are strictly ascending; the value of the first period is the missing value;
  and the value of every later period is \<open>(w\<^sub>i - w\<^sub>i\<^sub>-\<^sub>1) / w\<^sub>i\<^sub>-\<^sub>1\<close>, where \<open>w\<close> is the weight
  of \<open>agg\<close> as the second aggregation of the \<^verbatim>\<open>var\<close> branch returns it (the weight
  itself, and \<open>0\<close> for a missing one, see \<open>sum_skipna_single\<close>). The division is the
  float division: nothing is raised for a previous weight of \<open>0\<close>.
\<close>

theorem basket_variation:
  assumes "fst (analyze_basket df country partner product' True direction) = Inr t"
  shows "\<exists>agg. fst (analyze_basket df country partner product' False direction) = Inr agg \<and>
     t \<noteq> [] \<and> map fst t = map fst agg \<and> sorted (map fst t) \<and> distinct (map fst t) \<and>
     snd (t ! 0) = NaN \<and>
     (\<forall>i. 0 < i \<and> i < length t \<longrightarrow>
        snd (t ! i) = pdiv (psub (sum_skipna [snd (agg ! i)]) (sum_skipna [snd (agg ! (i - 1))]))
                           (sum_skipna [snd (agg ! (i - 1))]))"
proof -
  let ?f = "data (snd (analyze_basket df country partner product' True direction))"
  from fst_analyze_basket [OF assms] have dir: "direction \<in> set [''E'', ''I'']"
    and bt: "basket_table ?f country partner product' True direction = Inr t" by simp_all
  from basket_table_var [OF bt] obtain agg where
    agg: "basket_table ?f country partner product' False direction = Inr agg"
    and ne: "agg \<noteq> []" and s: "sorted (map fst agg)" and d: "distinct (map fst agg)"
    and t: "t = variation (map (\<lambda>x. (fst x, sum_skipna [snd x])) agg)"
    by blast
  let ?g = "map (\<lambda>x. (fst x, sum_skipna [snd x])) agg"
  have len: "length t = length agg" by (simp add: t length_variation)
  have fsts: "map fst t = map fst agg" by (simp add: t map_fst_variation comp_def)
  have first: "snd (t ! 0) = NaN"
    using ne by (simp add: t variation_nth shift1_0 pdiv_NaN)
  have later: "snd (t ! i) = pdiv (psub (sum_skipna [snd (agg ! i)]) (sum_skipna [snd (agg ! (i - 1))]))
                           (sum_skipna [snd (agg ! (i - 1))])" if "0 < i" "i < length t" for i
  proof -
    from that len have i: "i < length ?g" "i - 1 < length agg" "i < length agg" by simp_all
    have "shift1 (map snd ?g) ! i = map snd ?g ! (i - 1)"
      using that i by (intro shift1_nth) simp_all
    also have "\<dots> = sum_skipna [snd (agg ! (i - 1))]" using i by simp
    finally have lag: "shift1 (map snd ?g) ! i = sum_skipna [snd (agg ! (i - 1))]" .
    show ?thesis unfolding t variation_nth [OF i(1)] lag using i by simp
  qed
  have "fst (analyze_basket df country partner product' False direction) = Inr agg"
    using agg fst_analyze_basket_ok [OF dir, of df country partner product' False]
      snd_analyze_basket [of df country partner product' False direction True]
    by simp
  with ne len fsts s d first later show ?thesis by auto
qed

lemma basket_ds_var:
  "fst (analyze_basket basket_ds ''A'' None None True ''E'') =
     Inr [(''2019'', NaN), (''2020'', Fin (1 / 2))]"
  by (simp add: analyze_basket_def basket_table_def groupby_period_sum_def variation_def
      shift1_def sum_skipna_def psum_def psub_def truthy_def mk_row_def basket_ds_def Let_def)

theorem basket_variation_witness:
  "fst (analyze_basket basket_ds ''A'' None None True ''E'') =
     Inr [(''2019'', NaN), (''2020'', Fin (1 / 2))]
   \<and> fst (analyze_basket basket_ds ''A'' None None False ''E'') =
     Inr [(''2019'', Fin 30), (''2020'', Fin 45)]
   \<and> pdiv (psub (sum_skipna [Fin 45]) (sum_skipna [Fin 30])) (sum_skipna [Fin 30]) = Fin (1 / 2)"
  using basket_variation [OF basket_ds_var]
  by (simp add: analyze_basket_def basket_table_def groupby_period_sum_def variation_def
      shift1_def sum_skipna_def psum_def psub_def truthy_def mk_row_def basket_ds_def Let_def)

text \<open>
  C3, at a dataset with the single flow from A to B: the call with direction \<open>I\<close>
  returns the imports of B and leaves the dataset with the two columns exchanged, so the
  same call on the same dataset object then fails.
\<close>

theorem analyze_basket_swaps_dataset:
  "analyze_basket imports_ds ''B'' None None False ''I'' =
     (Inr [(''2020'', Fin 10)], imports_ds_after)
   \<and> rows (data imports_ds_after) \<noteq> rows (data imports_ds)
   \<and> fst (analyze_basket imports_ds_after ''B'' None None False ''I'') =
       Inl (ValueError ''Country B in direction I is not present in the dataset.'')"
  by (simp add: analyze_basket_def basket_table_def groupby_period_sum_def swap_source_target_def
      sum_skipna_def psum_def truthy_def mk_row_def imports_ds_def imports_ds_after_def Let_def)

section \<open>The shock simulation\<close>

lemma simulate_shock_no_product:
  assumes "\<not> truthy product'"
  shows "simulate_shock df cf ct per product' sigma =
    (if filter (\<lambda>r. period r = per) (rows (data df)) = [] then
       Inl (ValueError (''Period '' @ per @ '' is not present in the dataset.''))
     else if \<not> has_value2 (data df) then Inl (KeyError ''Columns not found: value2'')
     else if filter (\<lambda>r. source r \<noteq> cf \<and> target r = ct)
               (filter (\<lambda>r. period r = per) (rows (data df))) = [] then
       Inl (ValueError (''Simulation not applicable, since there is only '' @ cf @
                        '' as supplier for '' @ ct @ ''.''))
     else if sigma = 1 then Inl (ZeroDivisionError ''division by zero'')
     else Inr (df\<lparr>simulation := Some (shock_table cf sigma
                 (filter (\<lambda>r. target r = ct) (filter (\<lambda>r. period r = per) (rows (data df)))))\<rparr>))"
  using assms
  by (simp add: simulate_shock_def select_product_def groupby_source_target_product_def Let_def)

lemma simulate_shock_product:
  assumes "truthy product'"
  shows "simulate_shock df cf ct per product' sigma =
    (if filter (\<lambda>r. period r = per) (rows (data df)) = [] then
       Inl (ValueError (''Period '' @ per @ '' is not present in the dataset.''))
     else Inl (AttributeError ''TerraDataset object has no attribute empty''))"
  using assms
  by (simp add: simulate_shock_def select_product_def TerraDataset_empty_def Let_def)

lemma simulate_shock_keeps_data:
  "simulate_shock df cf ct per product' sigma = Inr df' \<Longrightarrow> data df' = data df"
  by (cases "truthy product'")
     (auto simp: simulate_shock_no_product simulate_shock_product split: if_splits)

lemma other_supplier_filter:
  "(filter (\<lambda>r. source r \<noteq> cf \<and> target r = ct) (filter (\<lambda>r. period r = per) rs) = []) =
   (\<not> (\<exists>r\<in>set rs. period r = per \<and> target r = ct \<and> source r \<noteq> cf))"
  by (auto simp: filter_empty_conv)

text \<open>
  C4, at a dataset with rows for the period 2020 and the product P1 only, asked for the
  product P2: the filter leaves no row, and the call raises the
  \<^verbatim>\<open>AttributeError\<close> of \<^verbatim>\<open>df.empty\<close>, not a \<^verbatim>\<open>ValueError\<close> that
  names the product. By \<open>simulate_shock_product\<close> this is what every call with a product
  does once the period is present.
\<close>

theorem product_filter_raises_attribute_error: "simulate_shock two_supplier_ds ''A'' ''C'' ''2020'' (Some ''P2'') 5 =
   Inl (AttributeError ''TerraDataset object has no attribute empty'')"
  by (simp add: simulate_shock_product truthy_def two_supplier_ds_def mk_row_def)

text \<open>
  C6 (as the code has it). Called without a product, with \<open>sigma \<noteq> 1\<close>, on a dataset that
  has the column \<^verbatim>\<open>value2\<close>: when no row of the period has
  \<^verbatim>\<open>target == country_to\<close> and \<^verbatim>\<open>source != country_from\<close> the call raises a
  \<^verbatim>\<open>ValueError\<close>, and when there is such a row the call returns a simulation,
  whatever the quantities of the rows are.
\<close>

theorem sole_supplier_check:
  assumes "\<not> truthy product'" and "has_value2 (data df)" and "sigma \<noteq> 1"
  shows "(\<not> (\<exists>r\<in>set (rows (data df)). period r = per \<and> target r = ct \<and> source r \<noteq> cf) \<longrightarrow>
            (\<exists>msg. simulate_shock df cf ct per product' sigma = Inl (ValueError msg))) \<and>
         ((\<exists>r\<in>set (rows (data df)). period r = per \<and> target r = ct \<and> source r \<noteq> cf) \<longrightarrow>
            (\<exists>sim. simulate_shock df cf ct per product' sigma = Inr (df\<lparr>simulation := Some sim\<rparr>)))"
proof (intro conjI impI)
  assume no: "\<not> (\<exists>r\<in>set (rows (data df)). period r = per \<and> target r = ct \<and> source r \<noteq> cf)"
  have "filter (\<lambda>r. source r \<noteq> cf \<and> target r = ct)
               (filter (\<lambda>r. period r = per) (rows (data df))) = []"
    unfolding other_supplier_filter by (rule no)
  then show "\<exists>msg. simulate_shock df cf ct per product' sigma = Inl (ValueError msg)"
    using assms by (simp add: simulate_shock_no_product)
next
  assume ex: "\<exists>r\<in>set (rows (data df)). period r = per \<and> target r = ct \<and> source r \<noteq> cf"
  have a: "filter (\<lambda>r. source r \<noteq> cf \<and> target r = ct)
               (filter (\<lambda>r. period r = per) (rows (data df))) \<noteq> []"
    unfolding other_supplier_filter using ex by blast
  from ex have b: "filter (\<lambda>r. period r = per) (rows (data df)) \<noteq> []"
    by (auto simp: filter_empty_conv)
  from a b assms have "simulate_shock df cf ct per product' sigma =
      Inr (df\<lparr>simulation := Some (shock_table cf sigma
        (filter (\<lambda>r. target r = ct) (filter (\<lambda>r. period r = per) (rows (data df)))))\<rparr>)"
    by (simp add: simulate_shock_no_product del: filter_filter)
  then show "\<exists>sim. simulate_shock df cf ct per product' sigma = Inr (df\<lparr>simulation := Some sim\<rparr>)"
    by blast
qed

theorem sole_supplier_check_witness:
  "\<not> truthy None \<and> has_value2 (data sole_ds) \<and> (5::int) \<noteq> 1 \<and>
   \<not> (\<exists>r\<in>set (rows (data sole_ds)). period r = ''2020'' \<and> target r = ''C'' \<and> source r \<noteq> ''A'') \<and>
   simulate_shock sole_ds ''A'' ''C'' ''2020'' None 5 =
     Inl (ValueError ''Simulation not applicable, since there is only A as supplier for C.'')"
  using sole_supplier_check [of None sole_ds 5 "''2020''" "''C''" "''A''"]
  by (simp add: simulate_shock_no_product truthy_def sole_ds_def mk_row_def)

text \<open>
  C6 as stated fails in its second half: with the two supplier rows A and B for the
  importer C, where A carries all of \<^verbatim>\<open>value2\<close> (5 of 5), removing A does not raise;
  the call returns a table whose \<^verbatim>\<open>q_new\<close> are both \<^verbatim>\<open>nan\<close>.
\<close>

theorem two_supplier_rows_counterexample:
  "map value2 (rows (data two_supplier_ds)) = [Fin 5, Fin 0] \<and>
   q_new_of (simulate_shock two_supplier_ds ''A'' ''C'' ''2020'' None 5) = Some [NaN, NaN]"
  by (simp add: simulate_shock_no_product truthy_def two_supplier_ds_def mk_row_def q_new_of_def
      shock_table_def col_q_new_def col_price_def col_share_post_def col_weight_post_def
      col_alpha_post_def col_alpha_def col_alpha0_def E_new_def P_new_def Q_tot_def
      sum_skipna_def psum_def)

lemma simulate_shock_returns:
  assumes "\<not> truthy product'" and "has_value2 (data df)" and "sigma \<noteq> 1"
    and "\<exists>r\<in>set (rows (data df)). period r = per \<and> target r = ct \<and> source r \<noteq> cf"
  shows "simulate_shock df cf ct per product' sigma =
         Inr (df\<lparr>simulation := Some (shock_table cf sigma (basket df per ct))\<rparr>)"
proof -
  have a: "filter (\<lambda>r. source r \<noteq> cf \<and> target r = ct)
               (filter (\<lambda>r. period r = per) (rows (data df))) \<noteq> []"
    unfolding other_supplier_filter using assms(4) by blast
  from assms(4) have b: "filter (\<lambda>r. period r = per) (rows (data df)) \<noteq> []"
    by (auto simp: filter_empty_conv)
  from a b assms(1-3) show ?thesis
    by (simp add: simulate_shock_no_product basket_def del: filter_filter)
qed

lemma simulate_shock_Inr:
  assumes "simulate_shock df cf ct per product' sigma = Inr df'"
  shows "\<not> truthy product' \<and> has_value2 (data df) \<and> sigma \<noteq> 1 \<and>
         basket df per ct \<noteq> [] \<and>
         df' = df\<lparr>simulation := Some (shock_table cf sigma (basket df per ct))\<rparr>"
proof (cases "truthy product'")
  case True
  with assms show ?thesis by (simp add: simulate_shock_product split: if_splits)
next
  case False
  have "filter (\<lambda>r. source r \<noteq> cf \<and> target r = ct)
          (filter (\<lambda>r. period r = per) (rows (data df))) \<noteq> [] \<Longrightarrow> basket df per ct \<noteq> []"
    by (auto simp: basket_def filter_empty_conv)
  with assms False show ?thesis
    by (simp add: simulate_shock_no_product basket_def del: filter_filter split: if_splits)
qed

text \<open>
  C7. A call that passes the validation (no product, the column \<^verbatim>\<open>value2\<close>,
  \<open>sigma \<noteq> 1\<close>, another supplier for the importer) returns a simulation, whatever the
  numbers are; if the post-shock weights sum to exactly \<open>0\<close> every \<^verbatim>\<open>share_post\<close> is
  \<open>0\<close>, and every row with price \<open>0\<close> has \<^verbatim>\<open>q_new = 0\<close>.
\<close>

theorem degenerate_branches:
  assumes "\<not> truthy product'" and "has_value2 (data df)" and "sigma \<noteq> 1"
    and "\<exists>r\<in>set (rows (data df)). period r = per \<and> target r = ct \<and> source r \<noteq> cf"
  shows "\<exists>sim. simulate_shock df cf ct per product' sigma = Inr (df\<lparr>simulation := Some sim\<rparr>) \<and>
     (sum_skipna (map (col_weight_post cf sigma (basket df per ct)) (basket df per ct)) = Fin 0 \<longrightarrow>
        (\<forall>r\<in>set sim. share_post r = Fin 0)) \<and>
     (\<forall>r\<in>set sim. price r = Fin 0 \<longrightarrow> q_new r = Fin 0)"
proof -
  let ?b = "basket df per ct"
  let ?sim = "shock_table cf sigma ?b"
  have 1: "\<forall>r\<in>set ?sim. share_post r = Fin 0"
    if "sum_skipna (map (col_weight_post cf sigma ?b) ?b) = Fin 0"
    using that by (auto simp: shock_table_def col_share_post_def)
  have 2: "\<forall>r\<in>set ?sim. price r = Fin 0 \<longrightarrow> q_new r = Fin 0"
    by (auto simp: shock_table_def col_q_new_def)
  from simulate_shock_returns [OF assms] 1 2 show ?thesis by blast
qed

lemma zero_price_ds_basket:
  "basket zero_price_ds ''2020'' ''C'' =
     [mk_row ''A'' ''C'' ''2020'' ''P1'' 10 5 0, mk_row ''B'' ''C'' ''2020'' ''P1'' 0 3 0]"
  by (simp add: basket_def zero_price_ds_def mk_row_def)

lemma zero_price_weight_post:
  "map (col_weight_post ''A'' 5 (basket zero_price_ds ''2020'' ''C'')) (basket zero_price_ds ''2020'' ''C'')
   = [Fin 0, NaN]"
  by (simp add: zero_price_ds_basket mk_row_def col_weight_post_def col_alpha_post_def
      col_alpha_def col_alpha0_def col_price_def sum_skipna_def psum_def)

theorem degenerate_branches_witness:
  "\<not> truthy None \<and> has_value2 (data zero_price_ds) \<and> (5::int) \<noteq> 1 \<and>
   sum_skipna (map (col_weight_post ''A'' 5 (basket zero_price_ds ''2020'' ''C''))
                   (basket zero_price_ds ''2020'' ''C'')) = Fin 0 \<and>
   share_post_q_new (simulate_shock zero_price_ds ''A'' ''C'' ''2020'' None 5) =
     Some [(Fin 2, Fin 0, NaN), (Fin 0, Fin 0, Fin 0)]"
proof -
  have h1: "\<not> truthy None" by (simp add: truthy_def)
  have h2: "has_value2 (data zero_price_ds)" by (simp add: zero_price_ds_def)
  have h3: "(5::int) \<noteq> 1" by simp
  have h4: "\<exists>r\<in>set (rows (data zero_price_ds)). period r = ''2020'' \<and> target r = ''C'' \<and> source r \<noteq> ''A''"
    by (simp add: zero_price_ds_def mk_row_def)
  have w: "sum_skipna (map (col_weight_post ''A'' 5 (basket zero_price_ds ''2020'' ''C''))
                   (basket zero_price_ds ''2020'' ''C'')) = Fin 0"
    by (simp add: zero_price_weight_post sum_skipna_def psum_def)
  have r: "share_post_q_new (simulate_shock zero_price_ds ''A'' ''C'' ''2020'' None 5) =
     Some [(Fin 2, Fin 0, NaN), (Fin 0, Fin 0, Fin 0)]"
    unfolding simulate_shock_returns [OF h1 h2 h3 h4]
    by (simp add: share_post_q_new_def shock_table_def zero_price_ds_basket col_share_post_def
        col_weight_post_def col_q_new_def col_price_def mk_row_def
        E_new_def P_new_def Q_tot_def col_alpha_post_def col_alpha_def col_alpha0_def
        sum_skipna_def psum_def)
  from degenerate_branches [OF h1 h2 h3 h4] h1 h2 h3 w r show ?thesis by simp
qed

text \<open>
  C10. When a call without a product returns, the grouped sums over (source, target,
  product) of the period's rows were computed (the \<^verbatim>\<open>groupby\<close> returned a table
  \<open>agg\<close>) and the simulation is the table of the basket itself: one row per row of the
  dataset with the period and the importer, with that row's own product, value and
  value2.
\<close>

theorem rows_not_aggregated:
  assumes "\<not> truthy product'" and "simulate_shock df cf ct per product' sigma = Inr df'"
  shows "\<exists>agg sim.
     groupby_source_target_product
       ((data df)\<lparr>rows := filter (\<lambda>r. period r = per) (rows (data df))\<rparr>) = Inr agg \<and>
     simulation df' = Some sim \<and> sim = shock_table cf sigma (basket df per ct) \<and>
     map input_columns sim = map row_columns (basket df per ct)"
proof -
  from simulate_shock_Inr [OF assms(2)] have v: "has_value2 (data df)"
    and d: "df' = df\<lparr>simulation := Some (shock_table cf sigma (basket df per ct))\<rparr>"
    by simp_all
  from v obtain agg where "groupby_source_target_product
       ((data df)\<lparr>rows := filter (\<lambda>r. period r = per) (rows (data df))\<rparr>) = Inr agg"
    by (simp add: groupby_source_target_product_def)
  moreover have "map input_columns (shock_table cf sigma (basket df per ct)) =
                 map row_columns (basket df per ct)"
    by (simp add: shock_table_def input_columns_def row_columns_def comp_def)
  ultimately show ?thesis using d by simp
qed

theorem rows_not_aggregated_witness:
  "\<not> truthy None \<and>
   simulate_shock multi_product_ds ''B'' ''C'' ''2020'' None 2 =
     Inr (multi_product_ds\<lparr>simulation :=
            Some (shock_table ''B'' 2 (basket multi_product_ds ''2020'' ''C''))\<rparr>) \<and>
   groupby_source_target_product
     ((data multi_product_ds)\<lparr>rows := filter (\<lambda>r. period r = ''2020'') (rows (data multi_product_ds))\<rparr>)
     = Inr [((''A'', ''C'', ''P1''), Fin 1, Fin 1), ((''A'', ''C'', ''P2''), Fin 4, Fin 2),
            ((''B'', ''C'', ''P1''), Fin 2, Fin 1), ((''B'', ''D'', ''P1''), Fin 7, Fin 7)] \<and>
   map input_columns (shock_table ''B'' 2 (basket multi_product_ds ''2020'' ''C'')) =
     [(''A'', ''C'', ''2020'', ''P1'', Fin 1, Fin 1), (''A'', ''C'', ''2020'', ''P2'', Fin 4, Fin 2),
      (''B'', ''C'', ''2020'', ''P1'', Fin 2, Fin 1)]"
proof -
  have h: "\<not> truthy None" by (simp add: truthy_def)
  have ev: "simulate_shock multi_product_ds ''B'' ''C'' ''2020'' None 2 =
     Inr (multi_product_ds\<lparr>simulation :=
            Some (shock_table ''B'' 2 (basket multi_product_ds ''2020'' ''C''))\<rparr>)"
    by (rule simulate_shock_returns) (simp_all add: truthy_def multi_product_ds_def mk_row_def)
  have g: "groupby_source_target_product
     ((data multi_product_ds)\<lparr>rows := filter (\<lambda>r. period r = ''2020'') (rows (data multi_product_ds))\<rparr>)
     = Inr [((''A'', ''C'', ''P1''), Fin 1, Fin 1), ((''A'', ''C'', ''P2''), Fin 4, Fin 2),
            ((''B'', ''C'', ''P1''), Fin 2, Fin 1), ((''B'', ''D'', ''P1''), Fin 7, Fin 7)]"
    by (simp add: groupby_source_target_product_def multi_product_ds_def mk_row_def
        sum_skipna_def psum_def)
  have b: "map row_columns (basket multi_product_ds ''2020'' ''C'') =
     [(''A'', ''C'', ''2020'', ''P1'', Fin 1, Fin 1), (''A'', ''C'', ''2020'', ''P2'', Fin 4, Fin 2),
      (''B'', ''C'', ''2020'', ''P1'', Fin 2, Fin 1)]"
    by (simp add: basket_def multi_product_ds_def mk_row_def row_columns_def)
  from rows_not_aggregated [OF h ev] h ev g b show ?thesis by simp
qed

lemma positive_finite_pmul:
  "positive_finite x \<Longrightarrow> positive_finite y \<Longrightarrow> positive_finite (pmul x y)"
  by (auto simp: positive_finite_def)

lemma positive_finite_pdiv:
  "positive_finite x \<Longrightarrow> positive_finite y \<Longrightarrow> positive_finite (pdiv x y)"
  by (auto simp: positive_finite_def)

lemma positive_finite_ppow: "positive_finite x \<Longrightarrow> positive_finite (ppow x n)"
  by (auto simp: positive_finite_def)

lemma positive_finite_ppowr: "positive_finite x \<Longrightarrow> positive_finite (ppowr x e)"
  by (auto simp: positive_finite_def)

lemma positive_finite_nonneg: "positive_finite x \<Longrightarrow> nonneg_finite x"
  by (auto simp: positive_finite_def nonneg_finite_def)

lemma nonneg_finite_pmul:
  "nonneg_finite x \<Longrightarrow> positive_finite y \<Longrightarrow> nonneg_finite (pmul x y)"
  by (auto simp: positive_finite_def nonneg_finite_def)

lemma sum_skipna_map_Fin: "sum_skipna (map (\<lambda>r. Fin (g r)) b) = Fin (sum_list (map g b))"
proof -
  have f: "filter (\<lambda>x. x \<noteq> NaN) (map (\<lambda>r. Fin (g r)) b) = map (\<lambda>r. Fin (g r)) b"
    by (induction b) simp_all
  have m: "psum (map (\<lambda>r. Fin (g r)) b) = Fin (sum_list (map g b))"
    using psum_map_Fin [of "map g b"] by (simp add: comp_def)
  show ?thesis by (simp only: sum_skipna_def f m)
qed

lemma sum_list_pos_member:
  fixes xs :: "real list"
  assumes "\<forall>x\<in>set xs. 0 \<le> x" and "y \<in> set xs" and "0 < y"
  shows "0 < sum_list xs"
  using assms
proof (induction xs)
  case Nil
  then show ?case by simp
next
  case (Cons x xs)
  from Cons.prems(1) have nn: "0 \<le> sum_list xs" by (simp add: sum_list_nonneg)
  show ?case
  proof (cases "y = x")
    case True
    with Cons.prems(3) nn show ?thesis by simp
  next
    case False
    with Cons.prems have "0 < sum_list xs" by (intro Cons.IH) simp_all
    moreover from Cons.prems(1) have "0 \<le> x" by simp
    ultimately show ?thesis by simp
  qed
qed

lemma nonneg_finite_fun:
  assumes "\<forall>r\<in>set b. nonneg_finite (w r)"
  obtains g where "\<forall>r\<in>set b. w r = Fin (g r) \<and> 0 \<le> g r"
  using assms unfolding nonneg_finite_def by (meson bchoice)

lemma positive_finite_fun:
  assumes "\<forall>r\<in>set b. positive_finite (w r)"
  obtains g where "\<forall>r\<in>set b. w r = Fin (g r) \<and> 0 < g r"
  using assms unfolding positive_finite_def by (meson bchoice)

lemma sum_skipna_nonneg_member:
  assumes "\<forall>r\<in>set b. nonneg_finite (w r)" and "r0 \<in> set b" and "positive_finite (w r0)"
  shows "positive_finite (sum_skipna (map w b))"
proof -
  from assms(1) obtain g where g: "\<forall>r\<in>set b. w r = Fin (g r) \<and> 0 \<le> g r"
    by (rule nonneg_finite_fun)
  then have "map w b = map (\<lambda>r. Fin (g r)) b" by (intro map_cong) simp_all
  then have s: "sum_skipna (map w b) = Fin (sum_list (map g b))"
    by (simp only: sum_skipna_map_Fin)
  from assms(2,3) g have "0 < g r0" by (auto simp: positive_finite_def)
  with g assms(2) have "0 < sum_list (map g b)"
    by (intro sum_list_pos_member [where y = "g r0"]) auto
  with s show ?thesis by (simp add: positive_finite_def)
qed

lemma sum_skipna_positive:
  assumes "\<forall>r\<in>set b. positive_finite (w r)" and "b \<noteq> []"
  shows "positive_finite (sum_skipna (map w b))"
proof -
  from assms(2) obtain r0 where r0: "r0 \<in> set b" by (cases b) auto
  from assms(1) have "\<forall>r\<in>set b. nonneg_finite (w r)" by (simp add: positive_finite_nonneg)
  from this r0 show ?thesis using assms(1) r0 by (intro sum_skipna_nonneg_member) auto
qed

lemma budget_identity:
  assumes w: "\<forall>r\<in>set b. nonneg_finite (w r)"
    and W: "positive_finite (sum_skipna (map w b))"
    and p: "\<forall>r\<in>set b. positive_finite (pr r)"
  shows "sum_skipna (map (\<lambda>r. pmul (pr r)
            (pdiv (pmul (pdiv (w r) (sum_skipna (map w b))) (Fin e)) (pr r))) b) = Fin e"
proof -
  from w obtain g where g: "\<forall>r\<in>set b. w r = Fin (g r) \<and> 0 \<le> g r"
    by (rule nonneg_finite_fun)
  from p obtain h where h: "\<forall>r\<in>set b. pr r = Fin (h r) \<and> 0 < h r"
    by (rule positive_finite_fun)
  from g have "map w b = map (\<lambda>r. Fin (g r)) b" by (intro map_cong) simp_all
  then have s: "sum_skipna (map w b) = Fin (sum_list (map g b))"
    by (simp only: sum_skipna_map_Fin)
  define S where "S = sum_list (map g b)"
  from W s have S: "0 < S" by (simp add: positive_finite_def S_def)
  have "map (\<lambda>r. pmul (pr r) (pdiv (pmul (pdiv (w r) (sum_skipna (map w b))) (Fin e)) (pr r))) b
        = map (\<lambda>r. Fin (g r * (e / S))) b"
  proof (rule map_cong [OF refl])
    fix r assume r: "r \<in> set b"
    with g h have wr: "w r = Fin (g r)" and pr: "pr r = Fin (h r)" and hr: "h r \<noteq> 0" by auto
    from S hr show "pmul (pr r) (pdiv (pmul (pdiv (w r) (sum_skipna (map w b))) (Fin e)) (pr r))
          = Fin (g r * (e / S))"
      unfolding wr pr s S_def [symmetric] by simp
  qed
  then have "sum_skipna (map (\<lambda>r. pmul (pr r)
            (pdiv (pmul (pdiv (w r) (sum_skipna (map w b))) (Fin e)) (pr r))) b)
        = Fin (sum_list (map (\<lambda>r. g r * (e / S)) b))"
    by (simp only: sum_skipna_map_Fin)
  also have "sum_list (map (\<lambda>r. g r * (e / S)) b) = S * (e / S)"
    by (simp only: S_def sum_list_mult_const)
  also from S have "S * (e / S) = e" by simp
  finally show ?thesis .
qed

lemma price_ds_basket:
  "basket price_ds ''2020'' ''C'' =
     [mk_row ''A'' ''C'' ''2020'' ''P1'' 1 1 0, mk_row ''B'' ''C'' ''2020'' ''P1'' 2 1 0]"
  by (simp add: basket_def price_ds_def mk_row_def)

lemma price_ds_hyps:
  "\<not> truthy None" "has_value2 (data price_ds)" "(2::int) \<noteq> 1"
  "\<exists>r\<in>set (rows (data price_ds)). period r = ''2020'' \<and> target r = ''C'' \<and> source r \<noteq> ''A''"
  by (simp_all add: truthy_def price_ds_def mk_row_def)

lemma price_ds_table:
  "shock_table ''A'' 2 (basket price_ds ''2020'' ''C'') =
    [\<lparr>s_source = ''A'', s_target = ''C'', s_period = ''2020'', s_product = ''P1'',
      s_value = Fin 1, s_value2 = Fin 1, price = Fin 1, alpha = Fin 0,
      share_base = Fin (1 / 2), share_post = Fin 0, q_base = Fin (3 / 2), q_new = Fin 0,
      q_delta = Fin (- (3 / 2))\<rparr>,
     \<lparr>s_source = ''B'', s_target = ''C'', s_period = ''2020'', s_product = ''P1'',
      s_value = Fin 2, s_value2 = Fin 1, price = Fin 2, alpha = Fin (2 / 3),
      share_base = Fin (1 / 2), share_post = Fin 1, q_base = Fin (3 / 4), q_new = Fin 3,
      q_delta = Fin (9 / 4)\<rparr>]"
  by (simp add: price_ds_basket shock_table_def mk_row_def col_price_def col_alpha0_def
      col_alpha_def col_weight_def col_share_base_def P_base_def E_base_def Q_tot_def
      col_q_base_def col_alpha_post_def col_weight_post_def col_share_post_def P_new_def
      E_new_def col_q_new_def psub_def sum_skipna_def psum_def powr_minus)

text \<open>
  C1 as stated fails: for the suppliers A (value 1, value2 1) and B (value 2, value2 1)
  of C, with \<open>sigma = 2\<close> and A removed, the baseline quantities sum to \<open>9/4\<close> and the
  post-shock quantities to \<open>3\<close>, while \<open>Q_total\<close> is \<open>2\<close>.
\<close>

theorem shock_volume_counterexample:
  "volumes (simulate_shock price_ds ''A'' ''C'' ''2020'' None 2) = Some (Fin (9 / 4), Fin 3, Fin 2)"
  unfolding simulate_shock_returns [OF price_ds_hyps]
  by (simp add: volumes_def price_ds_table sum_skipna_def psum_def)

lemma shock_table_spending_base:
  "map (\<lambda>r. pmul (price r) (q_base r)) (shock_table cf sigma b) =
   map (\<lambda>r. pmul (col_price r) (col_q_base sigma b r)) b"
  by (simp add: shock_table_def comp_def)

lemma shock_table_spending_new:
  "map (\<lambda>r. pmul (price r) (q_new r)) (shock_table cf sigma b) =
   map (\<lambda>r. pmul (col_price r) (col_q_new cf sigma b r)) b"
  by (simp add: shock_table_def comp_def)

lemma shock_table_value2: "map s_value2 (shock_table cf sigma b) = map value2 b"
  by (simp add: shock_table_def comp_def)

lemma ces_budget:
  assumes pos: "\<forall>r\<in>set b. positive_finite (value1 r) \<and> positive_finite (value2 r)"
    and other: "r0 \<in> set b" "source r0 \<noteq> cf"
  shows "sum_skipna (map (\<lambda>r. pmul (col_price r) (col_q_base sigma b r)) b) = E_base sigma b"
    and "sum_skipna (map (\<lambda>r. pmul (col_price r) (col_q_new cf sigma b r)) b) = E_new cf sigma b"
    and "positive_finite (E_base sigma b)" and "positive_finite (E_new cf sigma b)"
proof -
  from other have ne: "b \<noteq> []" by auto
  have price: "\<forall>r\<in>set b. positive_finite (col_price r)"
    using pos by (simp add: col_price_def positive_finite_pdiv)
  have a0: "\<forall>r\<in>set b. positive_finite (col_alpha0 sigma r)"
    using pos price by (simp add: col_alpha0_def positive_finite_pmul positive_finite_ppow)
  have A0: "positive_finite (sum_skipna (map (col_alpha0 sigma) b))"
    using a0 ne by (rule sum_skipna_positive)
  have al: "\<forall>r\<in>set b. positive_finite (col_alpha sigma b r)"
    using a0 A0 by (simp add: col_alpha_def positive_finite_pdiv)
  have wg: "\<forall>r\<in>set b. positive_finite (col_weight sigma b r)"
    using al price by (simp add: col_weight_def positive_finite_pmul positive_finite_ppow)
  have W: "positive_finite (sum_skipna (map (col_weight sigma b) b))"
    using wg ne by (rule sum_skipna_positive)
  have Q: "positive_finite (Q_tot b)"
    unfolding Q_tot_def using pos ne by (intro sum_skipna_positive) simp_all
  have Pb: "P_base sigma b =
      ppowr (sum_skipna (map (col_weight sigma b) b)) (1 / real_of_int (1 - sigma))"
  proof -
    have "col_weight sigma b = (\<lambda>r. pmul (col_alpha sigma b r) (ppow (col_price r) (1 - sigma)))"
      by (rule ext) (simp add: col_weight_def)
    then show ?thesis by (simp only: P_base_def)
  qed
  from W have "positive_finite (P_base sigma b)" unfolding Pb by (rule positive_finite_ppowr)
  with Q show E: "positive_finite (E_base sigma b)"
    unfolding E_base_def by (intro positive_finite_pmul)
  then obtain e where e: "E_base sigma b = Fin e" by (auto simp: positive_finite_def)
  have "sum_skipna (map (\<lambda>r. pmul (col_price r)
            (pdiv (pmul (pdiv (col_weight sigma b r) (sum_skipna (map (col_weight sigma b) b)))
                        (Fin e)) (col_price r))) b) = Fin e"
    using wg W price by (intro budget_identity) (simp_all add: positive_finite_nonneg)
  then show "sum_skipna (map (\<lambda>r. pmul (col_price r) (col_q_base sigma b r)) b) = E_base sigma b"
    by (simp only: col_q_base_def col_share_base_def e)
  have ap: "\<forall>r\<in>set b. nonneg_finite (col_alpha_post cf sigma b r)"
  proof
    fix r assume "r \<in> set b"
    with al have "nonneg_finite (col_alpha sigma b r)" by (simp add: positive_finite_nonneg)
    moreover have "nonneg_finite (Fin 0)" by (simp add: nonneg_finite_def)
    ultimately show "nonneg_finite (col_alpha_post cf sigma b r)"
      by (simp add: col_alpha_post_def)
  qed
  have wp: "\<forall>r\<in>set b. nonneg_finite (col_weight_post cf sigma b r)"
    using ap price by (simp add: col_weight_post_def nonneg_finite_pmul positive_finite_ppow)
  have "positive_finite (col_weight_post cf sigma b r0)"
    using other al price
    by (simp add: col_weight_post_def col_alpha_post_def positive_finite_pmul positive_finite_ppow)
  with wp other(1) have W': "positive_finite (sum_skipna (map (col_weight_post cf sigma b) b))"
    by (intro sum_skipna_nonneg_member [where ?r0.0 = r0])
  then have W'0: "sum_skipna (map (col_weight_post cf sigma b) b) \<noteq> Fin 0"
    by (auto simp: positive_finite_def)
  have Pn: "P_new cf sigma b =
      ppowr (sum_skipna (map (col_weight_post cf sigma b) b)) (1 / real_of_int (1 - sigma))"
  proof -
    have "col_weight_post cf sigma b =
          (\<lambda>r. pmul (col_alpha_post cf sigma b r) (ppow (col_price r) (1 - sigma)))"
      by (rule ext) (simp add: col_weight_post_def)
    then show ?thesis by (simp only: P_new_def)
  qed
  from W' have "positive_finite (P_new cf sigma b)" unfolding Pn by (rule positive_finite_ppowr)
  with Q show E': "positive_finite (E_new cf sigma b)"
    unfolding E_new_def by (intro positive_finite_pmul)
  then obtain e' where e': "E_new cf sigma b = Fin e'" by (auto simp: positive_finite_def)
  have qn: "map (\<lambda>r. pmul (col_price r) (col_q_new cf sigma b r)) b =
        map (\<lambda>r. pmul (col_price r)
            (pdiv (pmul (pdiv (col_weight_post cf sigma b r)
                              (sum_skipna (map (col_weight_post cf sigma b) b)))
                        (Fin e')) (col_price r))) b"
  proof (rule map_cong [OF refl])
    fix r assume "r \<in> set b"
    with price have "col_price r \<noteq> Fin 0" by (auto simp: positive_finite_def)
    with W'0 show "pmul (col_price r) (col_q_new cf sigma b r) =
        pmul (col_price r)
            (pdiv (pmul (pdiv (col_weight_post cf sigma b r)
                              (sum_skipna (map (col_weight_post cf sigma b) b)))
                        (Fin e')) (col_price r))"
      by (simp only: col_q_new_def col_share_post_def e' if_True not_False_eq_True)
  qed
  have "sum_skipna (map (\<lambda>r. pmul (col_price r)
            (pdiv (pmul (pdiv (col_weight_post cf sigma b r)
                              (sum_skipna (map (col_weight_post cf sigma b) b)))
                        (Fin e')) (col_price r))) b) = Fin e'"
    using wp W' price by (intro budget_identity) simp_all
  then show "sum_skipna (map (\<lambda>r. pmul (col_price r) (col_q_new cf sigma b r)) b) = E_new cf sigma b"
    by (simp only: qn e')
qed

text \<open>
  C1 (as the code has it). For a call that passes the validation, on a basket whose
  values and quantities are positive numbers, \<open>Q_total\<close> is the sum of \<^verbatim>\<open>value2\<close>
  over the basket and is the same before and after the shock, and what is conserved is the
  expenditure, not the volume: the sum of \<open>price * q_base\<close> is \<open>E = P * Q_total\<close> and the
  sum of \<open>price * q_new\<close> is \<open>E_new = P_new * Q_total\<close>, both positive numbers.
\<close>

theorem shock_conserves_expenditure:
  assumes "\<not> truthy product'" and "has_value2 (data df)" and "sigma \<noteq> 1"
    and "\<exists>r\<in>set (rows (data df)). period r = per \<and> target r = ct \<and> source r \<noteq> cf"
    and "\<forall>r\<in>set (basket df per ct). positive_finite (value1 r) \<and> positive_finite (value2 r)"
  shows "\<exists>sim. simulate_shock df cf ct per product' sigma = Inr (df\<lparr>simulation := Some sim\<rparr>) \<and>
     sum_skipna (map s_value2 sim) = Q_tot (basket df per ct) \<and>
     sum_skipna (map (\<lambda>r. pmul (price r) (q_base r)) sim) =
       pmul (P_base sigma (basket df per ct)) (Q_tot (basket df per ct)) \<and>
     sum_skipna (map (\<lambda>r. pmul (price r) (q_new r)) sim) =
       pmul (P_new cf sigma (basket df per ct)) (Q_tot (basket df per ct)) \<and>
     positive_finite (pmul (P_base sigma (basket df per ct)) (Q_tot (basket df per ct))) \<and>
     positive_finite (pmul (P_new cf sigma (basket df per ct)) (Q_tot (basket df per ct)))"
proof -
  let ?b = "basket df per ct"
  from assms(4) obtain r0 where r0: "r0 \<in> set ?b" "source r0 \<noteq> cf"
    by (auto simp: basket_def)
  note budget = ces_budget [OF assms(5) r0, of sigma, unfolded E_base_def E_new_def]
  have "simulate_shock df cf ct per product' sigma =
        Inr (df\<lparr>simulation := Some (shock_table cf sigma ?b)\<rparr>)"
    by (rule simulate_shock_returns [OF assms(1-4)])
  moreover have "sum_skipna (map s_value2 (shock_table cf sigma ?b)) = Q_tot ?b"
    by (simp only: shock_table_value2 Q_tot_def)
  moreover have "sum_skipna (map (\<lambda>r. pmul (price r) (q_base r)) (shock_table cf sigma ?b)) =
       pmul (P_base sigma ?b) (Q_tot ?b)"
    by (simp only: shock_table_spending_base budget(1))
  moreover have "sum_skipna (map (\<lambda>r. pmul (price r) (q_new r)) (shock_table cf sigma ?b)) =
       pmul (P_new cf sigma ?b) (Q_tot ?b)"
    by (simp only: shock_table_spending_new budget(2))
  ultimately show ?thesis using budget(3,4) by blast
qed

theorem shock_conserves_expenditure_witness:
  "\<not> truthy None \<and> has_value2 (data price_ds) \<and> (2::int) \<noteq> 1 \<and>
   (\<exists>r\<in>set (rows (data price_ds)). period r = ''2020'' \<and> target r = ''C'' \<and> source r \<noteq> ''A'') \<and>
   list_all (\<lambda>r. positive_finite (value1 r) \<and> positive_finite (value2 r))
     (basket price_ds ''2020'' ''C'') \<and>
   spending (simulate_shock price_ds ''A'' ''C'' ''2020'' None 2) = Some (Fin 3, Fin 6) \<and>
   pmul (P_base 2 (basket price_ds ''2020'' ''C'')) (Q_tot (basket price_ds ''2020'' ''C'')) = Fin 3 \<and>
   pmul (P_new ''A'' 2 (basket price_ds ''2020'' ''C'')) (Q_tot (basket price_ds ''2020'' ''C'')) = Fin 6"
proof -
  have pos: "\<forall>r\<in>set (basket price_ds ''2020'' ''C''). positive_finite (value1 r) \<and> positive_finite (value2 r)"
    by (simp add: price_ds_basket mk_row_def positive_finite_def)
  have sp: "spending (simulate_shock price_ds ''A'' ''C'' ''2020'' None 2) = Some (Fin 3, Fin 6)"
    unfolding simulate_shock_returns [OF price_ds_hyps]
    by (simp add: spending_def price_ds_table sum_skipna_def psum_def)
  have E: "pmul (P_base 2 (basket price_ds ''2020'' ''C'')) (Q_tot (basket price_ds ''2020'' ''C'')) = Fin 3"
    by (simp add: price_ds_basket mk_row_def col_price_def col_alpha0_def
      col_alpha_def P_base_def Q_tot_def sum_skipna_def psum_def powr_minus)
  have E': "pmul (P_new ''A'' 2 (basket price_ds ''2020'' ''C'')) (Q_tot (basket price_ds ''2020'' ''C'')) = Fin 6"
    by (simp add: price_ds_basket mk_row_def col_price_def col_alpha0_def
      col_alpha_def col_alpha_post_def P_new_def Q_tot_def sum_skipna_def psum_def powr_minus)
  from shock_conserves_expenditure [OF price_ds_hyps pos] price_ds_hyps pos sp E E' show ?thesis
    by (simp add: list_all_iff)
qed

section \<open>Directed graphs: the normalised weights\<close>

text \<open>
  On a directed graph the normalisation never raises: with a positive total the weights
  are the quantities over the total and sum to 1, and with a total that is not positive
  every weight and every degree is \<open>0\<close> and a table is returned.
\<close>

lemma psum_replicate_zero: "\<forall>x\<in>set xs. x = Fin 0 \<Longrightarrow> psum xs = Fin 0"
proof -
  assume "\<forall>x\<in>set xs. x = Fin 0"
  then have "xs = map Fin (map (\<lambda>x. 0) xs)" by (induction xs) simp_all
  then have "psum xs = Fin (sum_list (map (\<lambda>x. 0::real) xs))" by (metis psum_map_Fin)
  then show ?thesis by simp
qed

lemma sum_list_divide:
  fixes ys :: "real list"
  shows "sum_list (map (\<lambda>x. x / t) ys) = sum_list ys / t"
  by (induction ys) (simp_all add: add_divide_distrib)

lemma normalized_weights_of_total:
  "map (\<lambda>(u, v, d). get_weight d) (edges (normalize_weights G)) =
   map (\<lambda>(u, v, d). normalized_weight (total_weight G) d) (edges G)"
  by (simp add: normalize_weights_def get_weight_def case_prod_beta comp_def)

lemma normalize_weights_sum_one:
  assumes "total_weight G = Fin t" and "0 < t"
  shows "map (\<lambda>(u, v, d). get_weight d) (edges (normalize_weights G)) =
         map (\<lambda>(u, v, d). pdiv (get_qty d) (Fin t)) (edges G)"
    and "psum (map (\<lambda>(u, v, d). get_weight d) (edges (normalize_weights G))) = Fin 1"
proof -
  show eq: "map (\<lambda>(u, v, d). get_weight d) (edges (normalize_weights G)) =
         map (\<lambda>(u, v, d). pdiv (get_qty d) (Fin t)) (edges G)"
    using assms by (simp add: normalized_weights_of_total normalized_weight_def)
  let ?qs = "map (\<lambda>(u, v, d). get_qty d) (edges G)"
  from assms(1) have tot: "psum ?qs = Fin t" by (simp add: total_weight_def)
  from psum_eq_Fin [OF tot] have "\<forall>x\<in>set ?qs. \<exists>a. x = Fin a" .
  then obtain g where g: "\<forall>x\<in>set ?qs. x = Fin (g x)" by (meson bchoice)
  then have qs: "?qs = map Fin (map g ?qs)" by (simp add: map_idI)
  with tot have "Fin t = Fin (sum_list (map g ?qs))" by (metis psum_map_Fin)
  then have t: "t = sum_list (map g ?qs)" by simp
  have "map (\<lambda>(u, v, d). pdiv (get_qty d) (Fin t)) (edges G) = map (\<lambda>q. pdiv q (Fin t)) ?qs"
    by (simp add: case_prod_beta comp_def)
  also have "\<dots> = map (\<lambda>q. pdiv q (Fin t)) (map Fin (map g ?qs))" using qs by simp
  also have "\<dots> = map Fin (map (\<lambda>x. x / t) (map g ?qs))"
    using assms(2) by (simp add: comp_def)
  finally have "psum (map (\<lambda>(u, v, d). pdiv (get_qty d) (Fin t)) (edges G)) =
      Fin (sum_list (map (\<lambda>x. x / t) (map g ?qs)))"
    by (simp only: psum_map_Fin)
  also have "sum_list (map (\<lambda>x. x / t) (map g ?qs)) = sum_list (map g ?qs) / t"
    by (rule sum_list_divide)
  also have "\<dots> = 1" using assms(2) t by simp
  finally show "psum (map (\<lambda>(u, v, d). get_weight d) (edges (normalize_weights G))) = Fin 1"
    by (simp only: eq)
qed

lemma vulnerability_directed:
  "vulnerability (map (\<lambda>n. (n, Some (f n))) ns) =
   Inr (map (\<lambda>n. (n, if f n \<noteq> Fin 0 then psub (Fin 1) (f n) else Fin 0)) ns)"
  by (induction ns) (simp_all add: vulnerability_item_def)

lemma zero_total_degrees:
  assumes "\<not> pgt (total_weight G) (Fin 0)"
  shows "in_degree (normalize_weights G) n = Fin 0" and "out_degree (normalize_weights G) n = Fin 0"
proof -
  have w: "\<forall>e\<in>set (edges (normalize_weights G)). get_weight (snd (snd e)) = Fin 0"
    using assms by (auto simp: normalize_weights_def get_weight_def normalized_weight_def)
  show "in_degree (normalize_weights G) n = Fin 0"
    unfolding in_degree_def using w by (intro psum_replicate_zero) auto
  show "out_degree (normalize_weights G) n = Fin 0"
    unfolding out_degree_def using w by (intro psum_replicate_zero) auto
qed

lemma directed_zero_total:
  assumes "is_directed G" and "\<not> pgt (total_weight G) (Fin 0)"
  shows "calculate_node_metrics clos betw disti G p =
     Inr (map (\<lambda>n. \<lparr>Period = p, Node = n, Degree = Fin 0, Out_Degree = Some (Fin 0),
                   In_Degree = Some (Fin 0), Vulnerability = Fin 0,
                   Closeness = clos (set_inv_weight (normalize_weights G)) n,
                   Betweenness = betw (set_inv_weight (normalize_weights G)) n,
                   Distinctiveness = disti (to_undirected (set_inv_weight (normalize_weights G))) n\<rparr>)
            (nodes G))"
proof -
  have i: "in_deg (normalize_weights G) = (\<lambda>n. Some (Fin 0))"
    using assms by (auto simp: in_deg_def zero_total_degrees)
  have "vulnerability (map (\<lambda>n. (n, in_deg (normalize_weights G) n)) (nodes (normalize_weights G)))
        = Inr (map (\<lambda>n. (n, Fin 0)) (nodes G))"
    unfolding i using vulnerability_directed [of "\<lambda>n. Fin 0" "nodes G"] by simp
  then show ?thesis
    using assms
    by (simp add: calculate_node_metrics_def Let_def comp_def out_deg_def in_deg_def degree_def
        zero_total_degrees)
qed

section \<open>Further facts on the frame of the calls\<close>

text \<open>
  An absent period is reported by a \<^verbatim>\<open>ValueError\<close>, with or without a product; a
  call for the exports leaves the dataset as it was.
\<close>

lemma period_absent_raises:
  "filter (\<lambda>r. period r = per) (rows (data df)) = [] \<Longrightarrow>
   simulate_shock df cf ct per product' sigma =
     Inl (ValueError (''Period '' @ per @ '' is not present in the dataset.''))"
  by (simp add: simulate_shock_def Let_def)

lemma analyze_basket_exports_keeps_dataset:
  "snd (analyze_basket df country partner product' var ''E'') = df"
  by (simp add: analyze_basket_def Let_def)

lemma analyze_basket_imports_swaps:
  "snd (analyze_basket df country partner product' var ''I'') =
   df\<lparr>data := swap_source_target (data df)\<rparr>"
  by (simp add: analyze_basket_def Let_def)

end
